theory Spec2Isabelle
  imports Main "HOL-Library.List_Lexorder" "HOL-Library.Char_ord"
begin

section \<open>Data model of the progression engine (src/src/App.js)\<close>

text \<open>
  JavaScript numbers are modelled as unbounded integers: every amount, reward and counter
  the application stores is an integer far below \<open>2^53\<close>, where double arithmetic
  on integers is exact, and \<open>Math.floor(n * 1.5)\<close> is \<open>(n * 3) div 2\<close> there
  (\<open>div\<close> on \<open>int\<close> rounds towards minus infinity, as \<open>Math.floor\<close> does).
  Calendar days are the strings \<open>YYYY-MM-DD\<close> that
  \<open>new Date().toISOString().split('T')[0]\<close> yields; their lexicographic order is
  the chronological one. The clock is an argument of every operation that reads it.

  The React state and the document store are kept as one copy: the \<open>onSnapshot\<close>
  listeners mirror every store write into the local state, and every handler is modelled
  on the state left by the previous one, with every store write succeeding.
\<close>

record satisfaction_entry =
  date :: string
  entry_value :: int

text \<open>The \<open>playerStats\<close> state (App.js, lines 43-59).\<close>

record player_stats =
  level :: int
  xp :: int
  xpToNextLevel :: int
  gold :: int
  vitality :: int
  maxVitality :: int
  currentSatisfaction :: int
  satisfactionHistory :: "satisfaction_entry list"
  lastDailyRewardClaim :: "int option"
  currentStreak :: int
  lastStreakDate :: "string option"
  achievements :: "string list"
  hasCompletedTutorial :: bool
  pomodoroCount :: int
  dailyDesireCount :: int

text \<open>
  An objective document and a subtask document, with the fields the progression rules
  read or write. A subtask lives at \<open>objectives/{parent_id}/subtasks/{sub_id}\<close>.
\<close>

record objective =
  obj_id :: string
  isCurrent :: bool
  obj_isCompleted :: bool
  currentProgress :: int
  totalProgress :: int
  obj_xpReward :: int

record subtask =
  parent_id :: string
  sub_id :: string
  sub_isCompleted :: bool
  sub_xpReward :: int
  goldReward :: int
  progressContribution :: int

text \<open>An entry of the static table \<open>allAchievements\<close> (name and description are display text).\<close>

record achievement =
  ach_id :: string
  ach_type :: string
  ach_count :: int

text \<open>
  The second argument of \<open>checkAchievements\<close>: absent (\<open>null\<close>), a number (the new
  level or streak) or a document id (objective and subtask completion pass the id).
\<close>

datatype js_value = Null | Num int | Str string

section \<open>Achievement scan\<close>

definition allAchievements :: "achievement list" where
  "allAchievements =
    [\<lparr>ach_id = ''firstObjective'', ach_type = ''objectiveCompleted'', ach_count = 1\<rparr>,
     \<lparr>ach_id = ''fiveObjectives'', ach_type = ''objectiveCompleted'', ach_count = 5\<rparr>,
     \<lparr>ach_id = ''level5'', ach_type = ''levelUp'', ach_count = 5\<rparr>,
     \<lparr>ach_id = ''level10'', ach_type = ''levelUp'', ach_count = 10\<rparr>,
     \<lparr>ach_id = ''firstStreak'', ach_type = ''streak'', ach_count = 3\<rparr>,
     \<lparr>ach_id = ''sevenDayStreak'', ach_type = ''streak'', ach_count = 7\<rparr>,
     \<lparr>ach_id = ''pomodoroInitiate'', ach_type = ''pomodoroCompleted'', ach_count = 1\<rparr>,
     \<lparr>ach_id = ''pomodoroMaster'', ach_type = ''pomodoroCompleted'', ach_count = 10\<rparr>,
     \<lparr>ach_id = ''firstDailyDesire'', ach_type = ''dailyDesireCompleted'', ach_count = 1\<rparr>,
     \<lparr>ach_id = ''tenDailyDesires'', ach_type = ''dailyDesireCompleted'', ach_count = 10\<rparr>]"

subsection \<open>Comparing the value with a count\<close>

text \<open>
  \<open>value >= achievement.count\<close> converts a string operand to a number first. The
  conversion follows the grammar of a string numeric literal: optional white space around
  either nothing (the number 0), an unsigned binary, octal or hexadecimal integer
  (\<open>0b\<close>, \<open>0o\<close>, \<open>0x\<close>), or an optionally signed \<open>Infinity\<close> or decimal literal with
  optional fraction and exponent. Any other text is NaN. A decimal literal is kept as
  mantissa and power of ten and compared exactly (a double can round a literal that lies
  within half a unit in the last place below an integer up to that integer); white space
  is the ASCII one, document ids being ASCII.
\<close>

datatype js_number = NaN | PosInfinity | NegInfinity | Decimal int int

fun digitValue :: "string \<Rightarrow> char \<Rightarrow> nat option" where
  "digitValue [] c = None"
| "digitValue (d # ds) c = (if d = c then Some 0 else map_option Suc (digitValue ds c))"

definition digitIn :: "nat \<Rightarrow> char \<Rightarrow> nat option" where
  "digitIn base c =
    (case (case digitValue ''0123456789abcdef'' c of
             Some n \<Rightarrow> Some n
           | None \<Rightarrow> digitValue ''0123456789ABCDEF'' c) of
       Some n \<Rightarrow> if n < base then Some n else None
     | None \<Rightarrow> None)"

text \<open>The value of a run of digits; \<open>None\<close> when a character is not a digit of the base.\<close>

fun readDigits :: "nat \<Rightarrow> int \<Rightarrow> string \<Rightarrow> int option" where
  "readDigits base acc [] = Some acc"
| "readDigits base acc (c # cs) =
     (case digitIn base c of
        None \<Rightarrow> None
      | Some d \<Rightarrow> readDigits base (acc * int base + int d) cs)"

definition isExponentIndicator :: "char \<Rightarrow> bool" where
  "isExponentIndicator c = (c = CHR ''e'' \<or> c = CHR ''E'')"

definition signedInteger :: "string \<Rightarrow> int option" where
  "signedInteger s =
    (case s of
       [] \<Rightarrow> None
     | c # cs \<Rightarrow>
         if c = CHR ''+'' then (if cs = [] then None else readDigits 10 0 cs)
         else if c = CHR ''-''
         then (if cs = [] then None else map_option uminus (readDigits 10 0 cs))
         else readDigits 10 0 s)"

text \<open>
  \<open>digits . digits\<close>, \<open>digits .\<close>, \<open>. digits\<close> or \<open>digits\<close>, then an optional exponent:
  the mantissa without its point, and the power of ten it is scaled by.
\<close>

definition unsignedDecimal :: "string \<Rightarrow> (int \<times> int) option" where
  "unsignedDecimal s =
    (let mantissa = takeWhile (\<lambda>c. \<not> isExponentIndicator c) s;
         afterMantissa = dropWhile (\<lambda>c. \<not> isExponentIndicator c) s;
         intPart = takeWhile (\<lambda>c. c \<noteq> CHR ''.'') mantissa;
         fracPart = drop 1 (dropWhile (\<lambda>c. c \<noteq> CHR ''.'') mantissa)
     in if intPart = [] \<and> fracPart = [] then None
        else case (readDigits 10 0 (intPart @ fracPart),
                   if afterMantissa = [] then Some 0
                   else signedInteger (drop 1 afterMantissa)) of
               (Some m, Some e) \<Rightarrow> Some (m, e - int (length fracPart))
             | _ \<Rightarrow> None)"

definition nonDecimal :: "string \<Rightarrow> int option" where
  "nonDecimal s =
    (case s of
       z # p # ds \<Rightarrow>
         if z = CHR ''0'' \<and> ds \<noteq> []
         then (if p = CHR ''x'' \<or> p = CHR ''X'' then readDigits 16 0 ds
               else if p = CHR ''o'' \<or> p = CHR ''O'' then readDigits 8 0 ds
               else if p = CHR ''b'' \<or> p = CHR ''B'' then readDigits 2 0 ds
               else None)
         else None
     | _ \<Rightarrow> None)"

definition isWhiteSpace :: "char \<Rightarrow> bool" where
  "isWhiteSpace c = (c \<in> set [CHR 0x09, CHR 0x0A, CHR 0x0B, CHR 0x0C, CHR 0x0D, CHR 0x20])"

definition trim :: "string \<Rightarrow> string" where
  "trim s = rev (dropWhile isWhiteSpace (rev (dropWhile isWhiteSpace s)))"

definition signedDecimal :: "int \<Rightarrow> string \<Rightarrow> js_number" where
  "signedDecimal sign s =
    (if s = ''Infinity'' then (if sign < 0 then NegInfinity else PosInfinity)
     else case unsignedDecimal s of
            None \<Rightarrow> NaN
          | Some (m, e) \<Rightarrow> Decimal (sign * m) e)"

definition stringToNumber :: "string \<Rightarrow> js_number" where
  "stringToNumber str =
    (let s = trim str
     in case s of
          [] \<Rightarrow> Decimal 0 0
        | c # cs \<Rightarrow>
            (case nonDecimal s of
               Some n \<Rightarrow> Decimal n 0
             | None \<Rightarrow>
                 if c = CHR ''+'' then signedDecimal 1 cs
                 else if c = CHR ''-'' then signedDecimal (- 1) cs
                 else signedDecimal 1 s))"

text \<open>\<open>number >= count\<close>; every comparison with NaN is false.\<close>

fun number_ge :: "js_number \<Rightarrow> int \<Rightarrow> bool" where
  "number_ge NaN c = False"
| "number_ge PosInfinity c = True"
| "number_ge NegInfinity c = False"
| "number_ge (Decimal m e) c =
     (if 0 \<le> e then c \<le> m * 10 ^ nat e else c * 10 ^ nat (- e) \<le> m)"

text \<open>\<open>value >= achievement.count\<close>: \<open>null\<close> converts to 0, a string as above.\<close>

fun value_ge :: "js_value \<Rightarrow> int \<Rightarrow> bool" where
  "value_ge Null c = (c \<le> 0)"
| "value_ge (Num n) c = (c \<le> n)"
| "value_ge (Str s) c = number_ge (stringToNumber s) c"

subsection \<open>The scan\<close>

text \<open>The \<open>switch (achievement.type)\<close> of the scan (lines 1261-1289).\<close>

definition isUnlocked :: "objective list \<Rightarrow> js_value \<Rightarrow> player_stats \<Rightarrow> achievement \<Rightarrow> bool" where
  "isUnlocked objectives v statsToUpdate a =
    (if ach_type a = ''objectiveCompleted''
       then ach_count a \<le> int (length (filter obj_isCompleted objectives))
     else if ach_type a = ''levelUp'' then value_ge v (ach_count a)
     else if ach_type a = ''streak'' then value_ge v (ach_count a)
     else if ach_type a = ''pomodoroCompleted'' then ach_count a \<le> pomodoroCount statsToUpdate
     else if ach_type a = ''dailyDesireCompleted'' then ach_count a \<le> dailyDesireCount statsToUpdate
     else False)"

text \<open>The \<open>forEach\<close> over the table, pushing each newly unlocked id (lines 1258-1296).\<close>

fun scan :: "(achievement \<Rightarrow> bool) \<Rightarrow> achievement list \<Rightarrow> string list \<Rightarrow> string list" where
  "scan unlocked [] updatedAchievements = updatedAchievements"
| "scan unlocked (a # rest) updatedAchievements =
     scan unlocked rest
       (if ach_id a \<notin> set updatedAchievements \<and> unlocked a
        then updatedAchievements @ [ach_id a] else updatedAchievements)"

text \<open>The state updater of \<open>checkAchievements(type, value)\<close> (lines 1245-1299).\<close>

definition bumpCounters :: "string \<Rightarrow> player_stats \<Rightarrow> player_stats" where
  "bumpCounters type prevStats =
    (let s1 = (if type = ''pomodoroCompleted''
               then prevStats\<lparr>pomodoroCount := pomodoroCount prevStats + 1\<rparr> else prevStats)
     in if type = ''dailyDesireCompleted''
        then s1\<lparr>dailyDesireCount := dailyDesireCount s1 + 1\<rparr> else s1)"

definition checkAchievements ::
  "objective list \<Rightarrow> string \<Rightarrow> js_value \<Rightarrow> player_stats \<Rightarrow> player_stats" where
  "checkAchievements objectives type v prevStats =
    (let statsToUpdate = bumpCounters type prevStats
     in statsToUpdate\<lparr>achievements :=
          scan (isUnlocked objectives v statsToUpdate) allAchievements (achievements prevStats)\<rparr>)"

section \<open>Experience and gold\<close>

text \<open>
  The level-up loop of \<open>addXp\<close> (lines 291-298). Nothing in the loop bounds the number
  of iterations, so it is a partial function: \<open>None\<close> is a loop that never exits. The
  last component collects the levels announced to \<open>checkAchievements('levelUp', _)\<close>.
\<close>

partial_function (option) levelUpLoop ::
  "int \<Rightarrow> int \<Rightarrow> int \<Rightarrow> int list \<Rightarrow> (int \<times> int \<times> int \<times> int list) option" where
  "levelUpLoop newXp newLevel newXpToNextLevel reached =
    (if newXp \<ge> newXpToNextLevel
     then levelUpLoop (newXp - newXpToNextLevel) (newLevel + 1)
            ((newXpToNextLevel * 3) div 2) (reached @ [newLevel + 1])
     else Some (newXp, newLevel, newXpToNextLevel, reached))"

text \<open>The state updater of \<open>addXp\<close>, with the levels it announces.\<close>

definition addXp_update :: "int \<Rightarrow> player_stats \<Rightarrow> (player_stats \<times> int list) option" where
  "addXp_update amount prevStats =
    (case levelUpLoop (xp prevStats + amount) (level prevStats) (xpToNextLevel prevStats) [] of
       None \<Rightarrow> None
     | Some (newXp, newLevel, newXpToNextLevel, reached) \<Rightarrow>
         Some (prevStats\<lparr>xp := newXp, level := newLevel, xpToNextLevel := newXpToNextLevel\<rparr>,
               reached))"

text \<open>
  \<open>addXp(amount)\<close>: the updater, then the achievement scans it queued, one for each
  level reached. A scan only writes \<open>achievements\<close> here, so the place of the scans among
  the other queued updaters only shows in the order of that list.
\<close>

definition levelUpScans :: "objective list \<Rightarrow> int list \<Rightarrow> player_stats \<Rightarrow> player_stats" where
  "levelUpScans objectives reached stats =
    foldl (\<lambda>s newLevel. checkAchievements objectives ''levelUp'' (Num newLevel) s) stats reached"

definition addXp :: "objective list \<Rightarrow> int \<Rightarrow> player_stats \<Rightarrow> player_stats option" where
  "addXp objectives amount prevStats =
    (case addXp_update amount prevStats of
       None \<Rightarrow> None
     | Some (updatedStats, reached) \<Rightarrow> Some (levelUpScans objectives reached updatedStats))"

definition deductXp :: "int \<Rightarrow> player_stats \<Rightarrow> player_stats" where
  "deductXp amount prevStats = prevStats\<lparr>xp := max 0 (xp prevStats - amount)\<rparr>"

definition addGold :: "int \<Rightarrow> player_stats \<Rightarrow> player_stats" where
  "addGold amount prevStats = prevStats\<lparr>gold := gold prevStats + amount\<rparr>"

definition deductGold :: "int \<Rightarrow> player_stats \<Rightarrow> player_stats" where
  "deductGold amount prevStats = prevStats\<lparr>gold := max 0 (gold prevStats - amount)\<rparr>"

definition addVitality :: "int \<Rightarrow> player_stats \<Rightarrow> player_stats" where
  "addVitality amount prevStats =
    prevStats\<lparr>vitality := min (maxVitality prevStats) (vitality prevStats + amount)\<rparr>"

text \<open>The initial \<open>playerStats\<close> (lines 43-59).\<close>

definition initialStats :: player_stats where
  "initialStats =
    \<lparr>level = 1, xp = 0, xpToNextLevel = 100, gold = 0, vitality = 100, maxVitality = 100,
     currentSatisfaction = 50, satisfactionHistory = [], lastDailyRewardClaim = None,
     currentStreak = 0, lastStreakDate = None, achievements = [],
     hasCompletedTutorial = False, pomodoroCount = 0, dailyDesireCount = 0\<rparr>"

section \<open>Satisfaction, streak, daily reward and shop\<close>

text \<open>\<open>Array.prototype.findIndex\<close>; \<open>None\<close> stands for the result \<open>-1\<close>.\<close>

fun findIndex :: "('a \<Rightarrow> bool) \<Rightarrow> 'a list \<Rightarrow> nat option" where
  "findIndex P [] = None"
| "findIndex P (x # xs) = (if P x then Some 0 else map_option Suc (findIndex P xs))"

text \<open>
  \<open>updateSatisfaction(newSatisfaction)\<close> (lines 383-413), with \<open>today\<close> the date string
  of the time of the call; \<open>slice(-30)\<close> keeps the last 30.
\<close>

definition updateSatisfaction :: "string \<Rightarrow> int \<Rightarrow> player_stats \<Rightarrow> player_stats" where
  "updateSatisfaction today newSatisfaction prevStats =
    (let clampedSatisfaction = min 100 (max 0 newSatisfaction);
         history = satisfactionHistory prevStats;
         updatedHistory =
           (case findIndex (\<lambda>entry. date entry = today) history of
              Some lastEntryIndex \<Rightarrow>
                history[lastEntryIndex :=
                  (history ! lastEntryIndex)\<lparr>entry_value := clampedSatisfaction\<rparr>]
            | None \<Rightarrow> history @ [\<lparr>date = today, entry_value = clampedSatisfaction\<rparr>])
     in prevStats\<lparr>currentSatisfaction := clampedSatisfaction,
                   satisfactionHistory := drop (length updatedHistory - 30) updatedHistory\<rparr>)"

text \<open>
  \<open>new Date(t).toISOString().split('T')[0]\<close> for a time \<open>t\<close> in milliseconds since the
  epoch: the UTC calendar day of \<open>t\<close> in the proleptic Gregorian calendar, as
  \<open>YYYY-MM-DD\<close>, with a sign and six digits for a year outside 0000-9999.
\<close>

definition digitChar :: "int \<Rightarrow> char" where
  "digitChar n = ''0123456789'' ! nat (n mod 10)"

definition pad2 :: "int \<Rightarrow> string" where
  "pad2 n = [digitChar (n div 10), digitChar n]"

definition yearString :: "int \<Rightarrow> string" where
  "yearString y =
    (if 0 \<le> y \<and> y \<le> 9999 then pad2 (y div 100) @ pad2 y
     else (if y < 0 then ''-'' else ''+'') @
          pad2 (\<bar>y\<bar> div 10000) @ pad2 (\<bar>y\<bar> div 100) @ pad2 \<bar>y\<bar>)"

definition isoDate :: "int \<Rightarrow> string" where
  "isoDate t =
    (let z = t div 86400000 + 719468;
         era = z div 146097;
         doe = z - era * 146097;
         yoe = (doe - doe div 1460 + doe div 36524 - doe div 146096) div 365;
         doy = doe - (365 * yoe + yoe div 4 - yoe div 100);
         mp = (5 * doy + 2) div 153;
         d = doy - (153 * mp + 2) div 5 + 1;
         m = (if mp < 10 then mp + 3 else mp - 9);
         y = yoe + era * 400 + (if m \<le> 2 then 1 else 0)
     in yearString y @ ''-'' @ pad2 m @ ''-'' @ pad2 d)"

text \<open>
  \<open>checkDailyStreak\<close> (lines 1182-1220), called at the time \<open>now\<close>. The guard reads
  \<open>playerStats.lastStreakDate\<close>, the state of the render the callback was created in
  (lines 1184-1195); the updaters work on \<open>prevStats\<close>, the state at the time they run
  (lines 1197-1209). The two are the same ledger only when no update has been applied since
  that render. Both reads of the clock give \<open>now\<close>, and
  \<open>yesterday.setDate(yesterday.getDate() - 1)\<close> steps one local calendar day back, which
  is 24 hours where the local UTC offset did not change in between.
\<close>

definition checkDailyStreak ::
  "objective list \<Rightarrow> int \<Rightarrow> player_stats \<Rightarrow> player_stats \<Rightarrow> player_stats" where
  "checkDailyStreak objectives now playerStats prevStats =
    (let today = isoDate now;
         lastStreak = lastStreakDate playerStats
     in if lastStreak = Some today then prevStats
        else (let yesterdayString = isoDate (now - 24 * 60 * 60 * 1000)
              in if lastStreak = Some yesterdayString
                 then (let newStreak = currentStreak prevStats + 1
                       in checkAchievements objectives ''streak'' (Num newStreak)
                            (prevStats\<lparr>currentStreak := newStreak,
                                       lastStreakDate := Some today\<rparr>))
                 else (let newStreak = 1
                       in checkAchievements objectives ''streak'' (Num newStreak)
                            (prevStats\<lparr>currentStreak := newStreak,
                                       lastStreakDate := Some today\<rparr>))))"

text \<open>What a handler reports through \<open>showMessage\<close>, or that it returned silently.\<close>

datatype report =
    NotReady
  | NoReport
  | NotYetCompleted
  | ObjectiveCompleted int int
  | SubtaskCompleted int int int
  | SubtaskIncomplete int int int
  | Cooldown int int
  | DailyRewardClaimed int int
  | Purchased
  | NotEnoughGold int

definition twentyFourHours :: int where
  "twentyFourHours = 24 * 60 * 60 * 1000"

text \<open>
  The guard \<open>lastClaim && (now - lastClaim < twentyFourHours)\<close> of
  \<open>handleClaimDailyReward\<close>, giving \<open>timeLeft\<close> when it holds. \<open>lastClaim &&\<close> is
  JavaScript truthiness: \<open>null\<close> and the number 0 are both falsy.
\<close>

fun activeCooldown :: "int \<Rightarrow> int option \<Rightarrow> int option" where
  "activeCooldown now None = None"
| "activeCooldown now (Some lastClaim) =
     (if lastClaim \<noteq> 0 \<and> now - lastClaim < twentyFourHours
      then Some (twentyFourHours - (now - lastClaim)) else None)"

text \<open>\<open>handleClaimDailyReward\<close> (lines 1035-1059); \<open>now\<close> is \<open>new Date().getTime()\<close>.\<close>

definition handleClaimDailyReward ::
  "objective list \<Rightarrow> int \<Rightarrow> player_stats \<Rightarrow> (report \<times> player_stats) option" where
  "handleClaimDailyReward objectives now playerStats =
    (case activeCooldown now (lastDailyRewardClaim playerStats) of
       Some timeLeft \<Rightarrow>
         Some (Cooldown (timeLeft div (1000 * 60 * 60))
                        ((timeLeft mod (1000 * 60 * 60)) div (1000 * 60)), playerStats)
     | None \<Rightarrow>
         (case addXp objectives 25 playerStats of
            None \<Rightarrow> None
          | Some s1 \<Rightarrow>
              Some (DailyRewardClaimed 25 15,
                    (addGold 15 s1)\<lparr>lastDailyRewardClaim := Some now\<rparr>)))"

text \<open>
  \<open>handleBuyReward(cost, effectFn, message)\<close> (lines 1132-1141). The effects the shop
  passes are state updaters (\<open>addVitality(20)\<close>, the raise of \<open>maxVitality\<close> of lines
  2902-2909) or only show a message (the identity on the stats).
\<close>

definition handleBuyReward ::
  "int \<Rightarrow> (player_stats \<Rightarrow> player_stats) \<Rightarrow> player_stats \<Rightarrow> report \<times> player_stats" where
  "handleBuyReward cost effectFn playerStats =
    (if gold playerStats \<ge> cost
     then (Purchased, effectFn (deductGold cost playerStats))
     else (NotEnoughGold cost, playerStats))"

definition raiseMaxVitality :: "player_stats \<Rightarrow> player_stats" where
  "raiseMaxVitality prevStats =
    (let newMaxVitality = maxVitality prevStats + 10
     in prevStats\<lparr>maxVitality := newMaxVitality,
                   vitality := min (vitality prevStats) newMaxVitality\<rparr>)"

section \<open>Objectives and subtasks\<close>

text \<open>
  The application state the handlers work on: \<open>ready\<close> is \<open>db && userId\<close>,
  \<open>subtasks\<close> holds the subtask documents of every objective.
\<close>

record app_state =
  ready :: bool
  objectives :: "objective list"
  subtasks :: "subtask list"
  playerStats :: player_stats

text \<open>\<open>currentObjective\<close> is \<open>fetchedObjectives.find(obj => obj.isCurrent)\<close> (line 184).\<close>

definition currentObjective :: "app_state \<Rightarrow> objective option" where
  "currentObjective st = find isCurrent (objectives st)"

text \<open>\<open>updateDoc\<close> on the objective document \<open>oid\<close>.\<close>

definition updateObjective ::
  "string \<Rightarrow> (objective \<Rightarrow> objective) \<Rightarrow> objective list \<Rightarrow> objective list" where
  "updateObjective oid f objs = map (\<lambda>obj. if obj_id obj = oid then f obj else obj) objs"

text \<open>\<open>handleCompleteObjective(objectiveId)\<close> (lines 485-526).\<close>

definition handleCompleteObjective :: "string \<Rightarrow> app_state \<Rightarrow> (report \<times> app_state) option" where
  "handleCompleteObjective objectiveId st =
    (if \<not> ready st then Some (NotReady, st)
     else case find (\<lambda>obj. obj_id obj = objectiveId) (objectives st) of
       None \<Rightarrow> Some (NoReport, st)
     | Some objectiveToComplete \<Rightarrow>
         if currentProgress objectiveToComplete < totalProgress objectiveToComplete
         then Some (NotYetCompleted, st)
         else (case addXp (objectives st) (obj_xpReward objectiveToComplete) (playerStats st) of
                 None \<Rightarrow> None
               | Some s1 \<Rightarrow>
                   Some (ObjectiveCompleted (obj_xpReward objectiveToComplete)
                           (obj_xpReward objectiveToComplete * 2),
                         st\<lparr>objectives :=
                              updateObjective objectiveId
                                (\<lambda>obj. obj\<lparr>obj_isCompleted := True, isCurrent := False\<rparr>)
                                (objectives st),
                            subtasks := filter (\<lambda>s. parent_id s \<noteq> objectiveId) (subtasks st),
                            playerStats :=
                              checkAchievements (objectives st) ''objectiveCompleted''
                                (Str (obj_id objectiveToComplete))
                                (addGold (obj_xpReward objectiveToComplete * 2) s1)\<rparr>)))"

text \<open>
  \<open>handleToggleSubtaskComplete(subtaskId, isCompleted)\<close> (lines 581-620), run at the time
  \<open>now\<close> from the render that shows \<open>st\<close>; the subtask card passes the subtask's
  present \<open>isCompleted\<close> (line 1406).
\<close>

definition handleToggleSubtaskComplete ::
  "int \<Rightarrow> string \<Rightarrow> bool \<Rightarrow> app_state \<Rightarrow> (report \<times> app_state) option" where
  "handleToggleSubtaskComplete now subtaskId isCompleted st =
    (if \<not> ready st then Some (NotReady, st)
     else case currentObjective st of
       None \<Rightarrow> Some (NotReady, st)
     | Some cur \<Rightarrow>
        (case find (\<lambda>s. sub_id s = subtaskId)
                (filter (\<lambda>s. parent_id s = obj_id cur) (subtasks st)) of
           None \<Rightarrow> Some (NoReport, st)
         | Some subtaskToUpdate \<Rightarrow>
            (let toggled = map (\<lambda>s. if parent_id s = obj_id cur \<and> sub_id s = subtaskId
                                     then s\<lparr>sub_isCompleted := \<not> isCompleted\<rparr> else s)
                               (subtasks st)
             in if \<not> isCompleted
                then (let newProgress =
                            currentProgress cur + progressContribution subtaskToUpdate
                      in case addXp (objectives st) (sub_xpReward subtaskToUpdate)
                                (playerStats st) of
                           None \<Rightarrow> None
                         | Some s1 \<Rightarrow>
                             Some (SubtaskCompleted (progressContribution subtaskToUpdate)
                                     (sub_xpReward subtaskToUpdate) (goldReward subtaskToUpdate),
                                   st\<lparr>objectives :=
                                        updateObjective (obj_id cur)
                                          (\<lambda>obj. obj\<lparr>currentProgress :=
                                                    min newProgress (totalProgress cur)\<rparr>)
                                          (objectives st),
                                      subtasks := toggled,
                                      playerStats :=
                                        checkDailyStreak (objectives st) now (playerStats st)
                                          (checkAchievements (objectives st) ''subtaskCompleted''
                                             (Str (sub_id subtaskToUpdate))
                                             (addGold (goldReward subtaskToUpdate) s1))\<rparr>))
                else (let newProgress =
                            currentProgress cur - progressContribution subtaskToUpdate
                      in Some (SubtaskIncomplete (progressContribution subtaskToUpdate)
                                 (sub_xpReward subtaskToUpdate) (goldReward subtaskToUpdate),
                               st\<lparr>objectives :=
                                    updateObjective (obj_id cur)
                                      (\<lambda>obj. obj\<lparr>currentProgress := max newProgress 0\<rparr>)
                                      (objectives st),
                                  subtasks := toggled,
                                  playerStats :=
                                    deductGold (goldReward subtaskToUpdate)
                                      (deductXp (sub_xpReward subtaskToUpdate)
                                         (playerStats st))\<rparr>)))))"

section \<open>An example state\<close>

text \<open>One current objective with one subtask and the initial ledger, used in the examples.\<close>

definition quest :: objective where
  "quest = \<lparr>obj_id = ''o1'', isCurrent = True, obj_isCompleted = False, currentProgress = 0,
            totalProgress = 100, obj_xpReward = 50\<rparr>"

definition task :: subtask where
  "task = \<lparr>parent_id = ''o1'', sub_id = ''s1'', sub_isCompleted = False, sub_xpReward = 20,
           goldReward = 10, progressContribution = 60\<rparr>"

definition exampleState :: app_state where
  "exampleState = \<lparr>ready = True, objectives = [quest], subtasks = [task],
                   playerStats = initialStats\<rparr>"

section \<open>The level-up loop\<close>

text \<open>One unfolding of the loop, when it exits and when it iterates.\<close>

lemma levelUpLoop_exit:
  "newXp < nxt \<Longrightarrow> levelUpLoop newXp lvl nxt reached = Some (newXp, lvl, nxt, reached)"
  by (subst levelUpLoop.simps) simp

lemma levelUpLoop_step:
  "nxt \<le> newXp \<Longrightarrow> levelUpLoop newXp lvl nxt reached =
     levelUpLoop (newXp - nxt) (lvl + 1) ((nxt * 3) div 2) (reached @ [lvl + 1])"
  by (subst levelUpLoop.simps) simp

text \<open>
  With a positive threshold the loop exits: every iteration takes at least 1 from
  \<open>newXp\<close>, and the threshold never shrinks.
\<close>

lemma levelUpLoop_terminates:
  assumes "0 < nxt"
  shows "\<exists>x' l' n' r'. levelUpLoop x l nxt r = Some (x', l', n', r') \<and>
           x' < n' \<and> l \<le> l' \<and> nxt \<le> n' \<and> (0 \<le> x \<longrightarrow> 0 \<le> x') \<and> (nxt \<le> x \<longrightarrow> l < l')"
  using assms
proof (induction "nat x" arbitrary: x l nxt r rule: less_induct)
  case less
  show ?case
  proof (cases "nxt \<le> x")
    case True
    have pos: "0 < (nxt * 3) div 2" using less.prems by linarith
    have grow: "nxt \<le> (nxt * 3) div 2" using less.prems by linarith
    have dec: "nat (x - nxt) < nat x" using less.prems True by linarith
    from less.hyps[OF dec pos, of "l + 1" "r @ [l + 1]"]
    obtain x' l' n' r' where
      "levelUpLoop (x - nxt) (l + 1) ((nxt * 3) div 2) (r @ [l + 1]) = Some (x', l', n', r')"
      "x' < n'" "l + 1 \<le> l'" "(nxt * 3) div 2 \<le> n'" "0 \<le> x - nxt \<longrightarrow> 0 \<le> x'"
      by blast
    then show ?thesis using True grow by (simp add: levelUpLoop_step)
  next
    case False
    then show ?thesis by (simp add: levelUpLoop_exit)
  qed
qed

text \<open>
  With a threshold of 0 or less that \<open>newXp\<close> has reached, the loop never exits: the
  threshold stays at 0 or falls, and \<open>newXp\<close> does not fall. The data model rules this
  out (\<open>xpToNextLevel\<close> starts at 100 and only grows).
\<close>

lemma levelUpLoop_diverges:
  assumes "levelUpLoop x l nxt r = Some y"
  shows "\<not> (nxt \<le> 0 \<and> nxt \<le> x)"
proof (rule levelUpLoop.raw_induct
        [where P = "\<lambda>x l nxt r y. \<not> (nxt \<le> 0 \<and> nxt \<le> x)", OF _ assms])
  fix f :: "int \<Rightarrow> int \<Rightarrow> int \<Rightarrow> int list \<Rightarrow> (int \<times> int \<times> int \<times> int list) option"
  fix x l nxt :: int and r :: "int list" and y
  assume IH: "\<And>x l nxt r y. f x l nxt r = Some y \<Longrightarrow> \<not> (nxt \<le> 0 \<and> nxt \<le> x)"
  assume body: "(if nxt \<le> x then f (x - nxt) (l + 1) ((nxt * 3) div 2) (r @ [l + 1])
                 else Some (x, l, nxt, r)) = Some y"
  show "\<not> (nxt \<le> 0 \<and> nxt \<le> x)"
  proof
    assume a: "nxt \<le> 0 \<and> nxt \<le> x"
    then have "f (x - nxt) (l + 1) ((nxt * 3) div 2) (r @ [l + 1]) = Some y"
      using body by simp
    from IH[OF this] have "\<not> ((nxt * 3) div 2 \<le> 0 \<and> (nxt * 3) div 2 \<le> x - nxt)" .
    moreover have "(nxt * 3) div 2 \<le> 0" using a by linarith
    moreover have "(nxt * 3) div 2 \<le> x - nxt" using a by linarith
    ultimately show False by simp
  qed
qed


text \<open>An achievement scan leaves experience, gold, streak and cooldown fields alone.\<close>

lemma checkAchievements_keeps [simp]:
  "xp (checkAchievements objs t v s) = xp s"
  "level (checkAchievements objs t v s) = level s"
  "xpToNextLevel (checkAchievements objs t v s) = xpToNextLevel s"
  "gold (checkAchievements objs t v s) = gold s"
  "currentStreak (checkAchievements objs t v s) = currentStreak s"
  "lastStreakDate (checkAchievements objs t v s) = lastStreakDate s"
  "lastDailyRewardClaim (checkAchievements objs t v s) = lastDailyRewardClaim s"
  by (simp_all add: checkAchievements_def bumpCounters_def Let_def)

lemma levelUpScans_keeps [simp]:
  "xp (levelUpScans objs reached s) = xp s"
  "level (levelUpScans objs reached s) = level s"
  "xpToNextLevel (levelUpScans objs reached s) = xpToNextLevel s"
  "gold (levelUpScans objs reached s) = gold s"
  "currentStreak (levelUpScans objs reached s) = currentStreak s"
  "lastStreakDate (levelUpScans objs reached s) = lastStreakDate s"
  "lastDailyRewardClaim (levelUpScans objs reached s) = lastDailyRewardClaim s"
  unfolding levelUpScans_def
  by (induction reached arbitrary: s; simp)+

lemma addXp_update_total:
  assumes "0 < xpToNextLevel s"
  shows "\<exists>s1 reached. addXp_update amount s = Some (s1, reached) \<and>
           xp s1 < xpToNextLevel s1 \<and> level s \<le> level s1 \<and>
           xpToNextLevel s \<le> xpToNextLevel s1 \<and> gold s1 = gold s \<and>
           lastDailyRewardClaim s1 = lastDailyRewardClaim s \<and>
           (0 \<le> xp s + amount \<longrightarrow> 0 \<le> xp s1)"
proof -
  from levelUpLoop_terminates[OF assms, of "xp s + amount" "level s" "[]"]
  obtain x' l' n' r' where
    "levelUpLoop (xp s + amount) (level s) (xpToNextLevel s) [] = Some (x', l', n', r')"
    "x' < n'" "level s \<le> l'" "xpToNextLevel s \<le> n'" "0 \<le> xp s + amount \<longrightarrow> 0 \<le> x'"
    by blast
  then show ?thesis by (simp add: addXp_update_def)
qed

lemma addXp_update_no_levelup:
  "xp s + amount < xpToNextLevel s \<Longrightarrow> addXp_update amount s = Some (s\<lparr>xp := xp s + amount\<rparr>, [])"
  by (simp add: addXp_update_def levelUpLoop_exit)

lemma addXp_no_levelup:
  "xp s + amount < xpToNextLevel s \<Longrightarrow> addXp objs amount s = Some (s\<lparr>xp := xp s + amount\<rparr>)"
  by (simp add: addXp_def addXp_update_no_levelup levelUpScans_def)

lemma addXp_total:
  assumes "0 < xpToNextLevel s"
  shows "\<exists>s'. addXp objs amount s = Some s' \<and>
           xp s' < xpToNextLevel s' \<and> level s \<le> level s' \<and>
           xpToNextLevel s \<le> xpToNextLevel s' \<and> gold s' = gold s \<and>
           lastDailyRewardClaim s' = lastDailyRewardClaim s \<and>
           (0 \<le> xp s + amount \<longrightarrow> 0 \<le> xp s')"
proof -
  from addXp_update_total[OF assms, of amount] obtain s1 reached where
    "addXp_update amount s = Some (s1, reached)" "xp s1 < xpToNextLevel s1"
    "level s \<le> level s1" "xpToNextLevel s \<le> xpToNextLevel s1" "gold s1 = gold s"
    "lastDailyRewardClaim s1 = lastDailyRewardClaim s"
    "0 \<le> xp s + amount \<longrightarrow> 0 \<le> xp s1"
    by blast
  then show ?thesis by (simp add: addXp_def)
qed

section \<open>Claims on experience\<close>

text \<open>
  Claim C1. For every ledger with \<open>xp < xpToNextLevel\<close> and every amount \<open>\<ge> 0\<close>,
  \<open>addXp\<close> returns, the resulting ledger has \<open>xp < xpToNextLevel\<close>, and \<open>level\<close> and
  \<open>xpToNextLevel\<close> are not below their values before the call. The ledger is one of the
  data model, whose \<open>xpToNextLevel\<close> is positive; \<open>levelUpLoop_diverges\<close> shows what
  the loop does otherwise.
\<close>

theorem addXp_leveling_invariant:
  assumes "0 < xpToNextLevel s" and "xp s < xpToNextLevel s" and "0 \<le> amount"
  shows "\<exists>s'. addXp objs amount s = Some s' \<and> xp s' < xpToNextLevel s' \<and>
           level s \<le> level s' \<and> xpToNextLevel s \<le> xpToNextLevel s'"
  using addXp_total[OF assms(1), of objs amount] by blast

theorem addXp_leveling_invariant_witness:
  "0 < xpToNextLevel initialStats \<and> xp initialStats < xpToNextLevel initialStats \<and> (0::int) \<le> 260 \<and>
   (\<exists>s'. addXp [] 260 initialStats = Some s' \<and> xp s' < xpToNextLevel s' \<and>
      level initialStats \<le> level s' \<and> xpToNextLevel initialStats \<le> xpToNextLevel s')"
  using addXp_leveling_invariant[of initialStats 260 "[]"] by (simp add: initialStats_def)

text \<open>
  Claim C8. When granting \<open>amount \<ge> 0\<close> causes no level-up
  (\<open>xp + amount < xpToNextLevel\<close>), \<open>deductXp amount\<close> after \<open>addXp amount\<close> gives
  back the \<open>xp\<close> of before (a ledger of the data model: \<open>xp \<ge> 0\<close>); and for every
  amount \<open>deductXp\<close> sets \<open>xp\<close> to \<open>max 0 (xp - amount)\<close> and leaves \<open>level\<close> and
  \<open>xpToNextLevel\<close> as they are.
\<close>

theorem deductXp_inverse:
  "(0 \<le> xp s \<and> 0 \<le> amount \<and> xp s + amount < xpToNextLevel s \<longrightarrow>
      (\<exists>s1. addXp objs amount s = Some s1 \<and> level s1 = level s \<and>
             xp (deductXp amount s1) = xp s)) \<and>
   xp (deductXp amount s) = max 0 (xp s - amount) \<and>
   level (deductXp amount s) = level s \<and>
   xpToNextLevel (deductXp amount s) = xpToNextLevel s"
  by (simp add: addXp_no_levelup deductXp_def)

theorem deductXp_inverse_witness:
  "(0 \<le> xp initialStats \<and> (0::int) \<le> 40 \<and> xp initialStats + 40 < xpToNextLevel initialStats) \<and>
   (\<exists>s1. addXp [] 40 initialStats = Some s1 \<and> level s1 = level initialStats \<and>
          xp (deductXp 40 s1) = xp initialStats)"
  using deductXp_inverse[of initialStats 40 "[]"] by (simp add: initialStats_def)

text \<open>
  Claim C9 says that \<open>addXp\<close> with a negative amount is routed to \<open>deductXp\<close>, so that
  \<open>xp\<close> becomes \<open>max 0 (xp - |amount|)\<close> and is never negative. \<open>addXp\<close> has no such
  branch: with \<open>xp = 3\<close> and \<open>amount = -5\<close> it stores \<open>xp = -2\<close>.
\<close>

theorem addXp_negative_counterexample:
  "map_option xp (addXp [] (- 5) (initialStats\<lparr>xp := 3\<rparr>)) = Some (- 2) \<and>
   max 0 (3 - \<bar>- 5\<bar>) \<noteq> (- 2 :: int)"
  by (simp add: addXp_no_levelup initialStats_def)

text \<open>
  Claim C9, amended. For every ledger with \<open>xp < xpToNextLevel\<close> and every amount
  \<open>< 0\<close>, \<open>addXp\<close> adds the amount without clamping: the resulting \<open>xp\<close> is
  \<open>xp - |amount|\<close>, which is \<open>max 0 (xp - |amount|)\<close> exactly when \<open>|amount| \<le> xp\<close>
  and negative otherwise; every other field, \<open>level\<close> and \<open>xpToNextLevel\<close> among them,
  is unchanged.
\<close>

theorem addXp_negative_amount:
  assumes "amount < 0" and "xp s < xpToNextLevel s"
  shows "addXp objs amount s = Some (s\<lparr>xp := xp s - \<bar>amount\<bar>\<rparr>) \<and>
         (xp s - \<bar>amount\<bar> = max 0 (xp s - \<bar>amount\<bar>) \<longleftrightarrow> \<bar>amount\<bar> \<le> xp s)"
  using assms by (auto simp add: addXp_no_levelup)

theorem addXp_negative_amount_witness:
  "(- 5 :: int) < 0 \<and> xp (initialStats\<lparr>xp := 30\<rparr>) < xpToNextLevel (initialStats\<lparr>xp := 30\<rparr>) \<and>
   addXp [] (- 5) (initialStats\<lparr>xp := 30\<rparr>) = Some (initialStats\<lparr>xp := 25\<rparr>)"
  using addXp_negative_amount[of "- 5" "initialStats\<lparr>xp := 30\<rparr>" "[]"]
  by (simp add: initialStats_def)

section \<open>Claims on the achievement scan\<close>

text \<open>Numeric text counts as a number in the comparison, other text never does.\<close>

lemma value_ge_text_examples:
  "value_ge (Str ''7'') 5"
  "\<not> value_ge (Str ''7'') 10"
  "value_ge (Str ''0x10'') 10"
  "value_ge (Str '' 1e1 '') 10"
  "\<not> value_ge (Str ''abc'') 1"
  by code_simp+

text \<open>What one pass over the table adds, and that a pass which finds nothing new is silent.\<close>

lemma scan_set:
  "set (scan u as upd) = set upd \<union> {ach_id a | a. a \<in> set as \<and> u a}"
  by (induction as arbitrary: upd) auto

lemma scan_nothing_new:
  "\<forall>a\<in>set as. u a \<longrightarrow> ach_id a \<in> set upd \<Longrightarrow> scan u as upd = upd"
  by (induction as arbitrary: upd) auto

lemma scan_idempotent: "scan u as (scan u as upd) = scan u as upd"
  by (rule scan_nothing_new) (auto simp: scan_set)

lemma scan_appends:
  "\<exists>new. scan u as upd = upd @ new \<and> distinct new \<and> set new \<inter> set upd = {}"
proof (induction as arbitrary: upd)
  case Nil
  show ?case by simp
next
  case (Cons a as)
  show ?case
  proof (cases "ach_id a \<notin> set upd \<and> u a")
    case True
    from Cons[of "upd @ [ach_id a]"] obtain new where
      n: "scan u as (upd @ [ach_id a]) = (upd @ [ach_id a]) @ new" "distinct new"
         "set new \<inter> set (upd @ [ach_id a]) = {}" by blast
    have "scan u (a # as) upd = upd @ (ach_id a # new)" using True n(1) by simp
    moreover have "distinct (ach_id a # new)" using n(2,3) by auto
    moreover have "set (ach_id a # new) \<inter> set upd = {}" using n(3) True by auto
    ultimately show ?thesis by blast
  next
    case False
    then show ?thesis using Cons[of upd] by auto
  qed
qed

lemma bumpCounters_other:
  "t \<noteq> ''pomodoroCompleted'' \<Longrightarrow> t \<noteq> ''dailyDesireCompleted'' \<Longrightarrow> bumpCounters t s = s"
  by (simp add: bumpCounters_def)

lemma isUnlocked_achievements [simp]:
  "isUnlocked objs v (s\<lparr>achievements := x\<rparr>) = isUnlocked objs v s"
  by (rule ext) (simp add: isUnlocked_def)

text \<open>
  Claim C3, amended. For every trigger type and value a scan only appends ids that were not
  unlocked before (it never unlocks an id twice and never removes one). For every trigger
  type other than \<open>pomodoroCompleted\<close> and \<open>dailyDesireCompleted\<close>, a second scan with
  the same arguments returns the ledger of the first unchanged, the unlocked list included.
  (For those two types the scan itself counts the event, see the counterexample.)
\<close>

theorem checkAchievements_rescan:
  "(\<exists>new. achievements (checkAchievements objs t v s) = achievements s @ new \<and>
          distinct new \<and> set new \<inter> set (achievements s) = {}) \<and>
   (t \<noteq> ''pomodoroCompleted'' \<and> t \<noteq> ''dailyDesireCompleted'' \<longrightarrow>
      checkAchievements objs t v (checkAchievements objs t v s) = checkAchievements objs t v s)"
proof
  show "\<exists>new. achievements (checkAchievements objs t v s) = achievements s @ new \<and>
          distinct new \<and> set new \<inter> set (achievements s) = {}"
    using scan_appends[of "isUnlocked objs v (bumpCounters t s)" allAchievements "achievements s"]
    by (simp add: checkAchievements_def Let_def)
next
  show "t \<noteq> ''pomodoroCompleted'' \<and> t \<noteq> ''dailyDesireCompleted'' \<longrightarrow>
      checkAchievements objs t v (checkAchievements objs t v s) = checkAchievements objs t v s"
    by (simp add: checkAchievements_def Let_def bumpCounters_other scan_idempotent)
qed

theorem checkAchievements_rescan_witness:
  "''streak'' \<noteq> ''pomodoroCompleted'' \<and> ''streak'' \<noteq> ''dailyDesireCompleted'' \<and>
   achievements (checkAchievements [] ''streak'' (Num 3) initialStats) = [''firstStreak''] \<and>
   checkAchievements [] ''streak'' (Num 3) (checkAchievements [] ''streak'' (Num 3) initialStats)
     = checkAchievements [] ''streak'' (Num 3) initialStats"
  using checkAchievements_rescan[of "[]" "''streak''" "Num 3" initialStats]
  by (simp add: checkAchievements_def bumpCounters_def allAchievements_def isUnlocked_def initialStats_def)

text \<open>
  Claim C3 as stated, for every trigger type, fails: \<open>checkAchievements('pomodoroCompleted')\<close>
  adds 1 to \<open>pomodoroCount\<close> on every call, so with a count of 8 the first scan unlocks
  nothing new and the second, with the same arguments, unlocks \<open>pomodoroMaster\<close>.
\<close>

theorem checkAchievements_rescan_counterexample:
  "achievements (checkAchievements [] ''pomodoroCompleted'' Null
      (initialStats\<lparr>pomodoroCount := 8, achievements := [''pomodoroInitiate'']\<rparr>))
     = [''pomodoroInitiate''] \<and>
   achievements (checkAchievements [] ''pomodoroCompleted'' Null
      (checkAchievements [] ''pomodoroCompleted'' Null
        (initialStats\<lparr>pomodoroCount := 8, achievements := [''pomodoroInitiate'']\<rparr>)))
     = [''pomodoroInitiate'', ''pomodoroMaster'']"
  by (simp add: checkAchievements_def bumpCounters_def allAchievements_def isUnlocked_def initialStats_def)

section \<open>Claims on the streak and the shop\<close>

text \<open>
  The branches of \<open>checkDailyStreak\<close>, for the ledger \<open>r\<close> of the render and the ledger
  \<open>p\<close> the updater receives: the guard looks at \<open>r\<close>, the streak counts on from \<open>p\<close>.
\<close>

lemma checkDailyStreak_branches:
  "(lastStreakDate r = Some (isoDate now) \<longrightarrow> checkDailyStreak objs now r p = p) \<and>
   (lastStreakDate r \<noteq> Some (isoDate now) \<and>
    lastStreakDate r = Some (isoDate (now - 24 * 60 * 60 * 1000)) \<longrightarrow>
      currentStreak (checkDailyStreak objs now r p) = currentStreak p + 1 \<and>
      lastStreakDate (checkDailyStreak objs now r p) = Some (isoDate now)) \<and>
   (lastStreakDate r \<noteq> Some (isoDate now) \<and>
    lastStreakDate r \<noteq> Some (isoDate (now - 24 * 60 * 60 * 1000)) \<longrightarrow>
      currentStreak (checkDailyStreak objs now r p) = 1 \<and>
      lastStreakDate (checkDailyStreak objs now r p) = Some (isoDate now))"
  by (simp add: checkDailyStreak_def Let_def)

text \<open>10:00 UTC on 2 March 2025, and the same time one day earlier.\<close>

lemma isoDate_examples:
  "isoDate 1740909600000 = ''2025-03-02''"
  "isoDate 1740823200000 = ''2025-03-01''"
  by code_simp+

text \<open>
  Claim C5 says that \<open>checkDailyStreak\<close> is a no-op when \<open>lastStreakDate\<close> equals today, so
  that the streak rises at most once per calendar day, goes from \<open>N\<close> to \<open>N + 1\<close> when
  \<open>lastStreakDate\<close> equals yesterday and is reset to 1 otherwise. The code reads
  \<open>lastStreakDate\<close> from the render the callback belongs to, not from the ledger it updates.
  Two calls from one render on 2025-03-02 (two subtasks completed before the next render),
  with \<open>lastStreakDate = 2025-03-01\<close> and a streak of 4: the first gives 5 and sets
  \<open>lastStreakDate\<close> to today; the second finds that ledger, whose \<open>lastStreakDate\<close> is
  today, and gives 6.
\<close>

theorem checkDailyStreak_stale_render:
  "isoDate 1740909600000 = ''2025-03-02'' \<and>
   isoDate (1740909600000 - 24 * 60 * 60 * 1000) = ''2025-03-01'' \<and>
   currentStreak (checkDailyStreak [] 1740909600000
      (initialStats\<lparr>currentStreak := 4, lastStreakDate := Some ''2025-03-01''\<rparr>)
      (initialStats\<lparr>currentStreak := 4, lastStreakDate := Some ''2025-03-01''\<rparr>)) = 5 \<and>
   lastStreakDate (checkDailyStreak [] 1740909600000
      (initialStats\<lparr>currentStreak := 4, lastStreakDate := Some ''2025-03-01''\<rparr>)
      (initialStats\<lparr>currentStreak := 4, lastStreakDate := Some ''2025-03-01''\<rparr>))
     = Some ''2025-03-02'' \<and>
   currentStreak (checkDailyStreak [] 1740909600000
      (initialStats\<lparr>currentStreak := 4, lastStreakDate := Some ''2025-03-01''\<rparr>)
      (checkDailyStreak [] 1740909600000
         (initialStats\<lparr>currentStreak := 4, lastStreakDate := Some ''2025-03-01''\<rparr>)
         (initialStats\<lparr>currentStreak := 4, lastStreakDate := Some ''2025-03-01''\<rparr>))) = 6"
  by (simp add: checkDailyStreak_def Let_def isoDate_examples initialStats_def)

text \<open>
  Claim C10. \<open>handleBuyReward\<close>: with \<open>gold < cost\<close> the purchase is refused, the effect
  is not applied and the ledger is returned as it was; with \<open>gold \<ge> cost\<close> the effect runs on
  the ledger whose gold is \<open>gold - cost\<close>, which is not negative, and after each effect the
  shop passes the gold is still \<open>gold - cost\<close>.
\<close>

theorem handleBuyReward_gold:
  "(gold s < cost \<longrightarrow> handleBuyReward cost effectFn s = (NotEnoughGold cost, s)) \<and>
   (cost \<le> gold s \<longrightarrow>
      handleBuyReward cost effectFn s = (Purchased, effectFn (s\<lparr>gold := gold s - cost\<rparr>)) \<and>
      0 \<le> gold s - cost \<and>
      gold (snd (handleBuyReward cost (addVitality n) s)) = gold s - cost \<and>
      gold (snd (handleBuyReward cost raiseMaxVitality s)) = gold s - cost \<and>
      gold (snd (handleBuyReward cost id s)) = gold s - cost)"
  by (simp add: handleBuyReward_def deductGold_def addVitality_def raiseMaxVitality_def Let_def)

theorem handleBuyReward_gold_witness:
  "gold (initialStats\<lparr>gold := 30\<rparr>) < 40 \<and>
   handleBuyReward 40 (addVitality 20) (initialStats\<lparr>gold := 30\<rparr>)
     = (NotEnoughGold 40, initialStats\<lparr>gold := 30\<rparr>) \<and>
   40 \<le> gold (initialStats\<lparr>gold := 55, vitality := 70\<rparr>) \<and>
   handleBuyReward 40 (addVitality 20) (initialStats\<lparr>gold := 55, vitality := 70\<rparr>)
     = (Purchased, initialStats\<lparr>gold := 15, vitality := 90\<rparr>)"
  using handleBuyReward_gold[of "initialStats\<lparr>gold := 30\<rparr>" 40 "addVitality 20" 20]
    handleBuyReward_gold[of "initialStats\<lparr>gold := 55, vitality := 70\<rparr>" 40 "addVitality 20" 20]
  by (simp add: initialStats_def addVitality_def)

section \<open>Claims on the satisfaction history\<close>

text \<open>
  With one entry per day, replacing at the index \<open>findIndex\<close> returns is replacing the
  entry dated today.
\<close>

lemma upsert_by_index:
  "distinct (map date h) \<Longrightarrow>
   (case findIndex (\<lambda>entry. date entry = today) h of
      Some i \<Rightarrow> h[i := (h ! i)\<lparr>entry_value := c\<rparr>]
    | None \<Rightarrow> h @ [\<lparr>date = today, entry_value = c\<rparr>]) =
   (if today \<in> date ` set h
    then map (\<lambda>e. if date e = today then e\<lparr>entry_value := c\<rparr> else e) h
    else h @ [\<lparr>date = today, entry_value = c\<rparr>])"
proof (induction h)
  case Nil
  show ?case by simp
next
  case (Cons e h)
  show ?case
  proof (cases "date e = today")
    case True
    then have "today \<notin> date ` set h" using Cons.prems by auto
    then have "map (\<lambda>e. if date e = today then e\<lparr>entry_value := c\<rparr> else e) h = h"
      by (induction h) auto
    then show ?thesis using True by simp
  next
    case False
    then show ?thesis using Cons by (auto split: option.splits)
  qed
qed

lemma map_date_replace:
  "map date (map (\<lambda>e. if date e = today then e\<lparr>entry_value := c\<rparr> else e) h) = map date h"
  by (induction h) auto

text \<open>
  Claim C7, amended. For every integer value and every ledger whose history has at most 30
  entries, at most one per day, in chronological order, and either holds an entry for today
  or only entries dated before today: \<open>updateSatisfaction\<close> sets \<open>currentSatisfaction\<close> to
  the value clamped to \<open>[0, 100]\<close>, replaces the value of today's entry or else appends an
  entry for today (keeping the last 30), and the new history again has at most 30 entries,
  at most one per day, in chronological order.
\<close>

theorem updateSatisfaction_history:
  assumes len: "length (satisfactionHistory s) \<le> 30"
    and dist: "distinct (map date (satisfactionHistory s))"
    and chrono: "sorted (map date (satisfactionHistory s))"
    and nofuture: "today \<in> date ` set (satisfactionHistory s) \<or>
                   (\<forall>e\<in>set (satisfactionHistory s). date e < today)"
  shows "currentSatisfaction (updateSatisfaction today v s) = min 100 (max 0 v) \<and>
         satisfactionHistory (updateSatisfaction today v s) =
           (if today \<in> date ` set (satisfactionHistory s)
            then map (\<lambda>e. if date e = today then e\<lparr>entry_value := min 100 (max 0 v)\<rparr> else e)
                   (satisfactionHistory s)
            else drop (length (satisfactionHistory s) - 29)
                   (satisfactionHistory s @ [\<lparr>date = today, entry_value = min 100 (max 0 v)\<rparr>])) \<and>
         \<lparr>date = today, entry_value = min 100 (max 0 v)\<rparr>
           \<in> set (satisfactionHistory (updateSatisfaction today v s)) \<and>
         length (satisfactionHistory (updateSatisfaction today v s)) \<le> 30 \<and>
         distinct (map date (satisfactionHistory (updateSatisfaction today v s))) \<and>
         sorted (map date (satisfactionHistory (updateSatisfaction today v s)))"
proof -
  define h where "h = satisfactionHistory s"
  define c where "c = min 100 (max 0 v)"
  define new where "new = \<lparr>date = today, entry_value = c\<rparr>"
  define h' where "h' = satisfactionHistory (updateSatisfaction today v s)"
  have cur: "currentSatisfaction (updateSatisfaction today v s) = c"
    by (simp add: updateSatisfaction_def Let_def c_def)
  define u where "u = (case findIndex (\<lambda>entry. date entry = today) h of
                         Some i \<Rightarrow> h[i := (h ! i)\<lparr>entry_value := c\<rparr>]
                       | None \<Rightarrow> h @ [\<lparr>date = today, entry_value = c\<rparr>])"
  have hu: "h' = drop (length u - 30) u"
    unfolding updateSatisfaction_def Let_def h'_def h_def c_def u_def by simp
  have "u = (if today \<in> date ` set h
             then map (\<lambda>e. if date e = today then e\<lparr>entry_value := c\<rparr> else e) h
             else h @ [\<lparr>date = today, entry_value = c\<rparr>])"
    unfolding u_def h_def by (rule upsert_by_index[OF dist])
  then have raw: "h' = (let u = (if today \<in> date ` set h
                      then map (\<lambda>e. if date e = today then e\<lparr>entry_value := c\<rparr> else e) h
                      else h @ [new])
                   in drop (length u - 30) u)"
    using hu by (simp add: new_def)
  have goal: "currentSatisfaction (updateSatisfaction today v s) = c \<and>
         h' = (if today \<in> date ` set h
               then map (\<lambda>e. if date e = today then e\<lparr>entry_value := c\<rparr> else e) h
               else drop (length h - 29) (h @ [new])) \<and>
         new \<in> set h' \<and> length h' \<le> 30 \<and> distinct (map date h') \<and> sorted (map date h')"
  proof (cases "today \<in> date ` set h")
    case True
    have eq: "h' = map (\<lambda>e. if date e = today then e\<lparr>entry_value := c\<rparr> else e) h"
      using raw True len by (simp add: h_def)
    from True obtain e where e: "e \<in> set h" "date e = today" by auto
    have "e\<lparr>entry_value := c\<rparr> = new" using e(2) by (simp add: new_def)
    then have mem: "new \<in> set h'" using e unfolding eq by force
    have dates: "map date h' = map date h" unfolding eq by (rule map_date_replace)
    have "length h' \<le> 30" using len unfolding eq by (simp add: h_def)
    moreover have "distinct (map date h')" using dist unfolding dates h_def .
    moreover have "sorted (map date h')" using chrono unfolding dates h_def .
    ultimately show ?thesis using True eq mem cur by (simp only: if_True simp_thms)
  next
    case False
    have eq: "h' = drop (length h - 29) (h @ [new])"
      using raw False by simp
    have mem: "new \<in> set h'"
    proof -
      have "length h - 29 \<le> length h" by simp
      then have "h' = drop (length h - 29) h @ [new]" unfolding eq by simp
      then show ?thesis by simp
    qed
    have before: "\<forall>e\<in>set h. date e < today" using nofuture False by (simp add: h_def)
    have d: "distinct (map date (h @ [new]))" using dist False by (simp add: h_def new_def)
    have so: "sorted (map date (h @ [new]))"
      using chrono before by (auto simp: h_def new_def sorted_append less_imp_le)
    have "length h' \<le> 30" unfolding eq using len by (simp add: h_def)
    moreover have "distinct (map date h')" unfolding eq drop_map[symmetric]
      using d by (rule distinct_drop)
    moreover have "sorted (map date h')" unfolding eq drop_map[symmetric]
      using so by (rule sorted_wrt_drop)
    ultimately show ?thesis using False eq mem cur by (simp only: if_False simp_thms)
  qed
  then show ?thesis unfolding h_def h'_def c_def new_def .
qed

theorem updateSatisfaction_history_witness:
  "length [\<lparr>date = ''2025-03-01'', entry_value = 40\<rparr>, \<lparr>date = ''2025-03-02'', entry_value = 55\<rparr>] \<le> 30 \<and>
   distinct (map date [\<lparr>date = ''2025-03-01'', entry_value = 40\<rparr>, \<lparr>date = ''2025-03-02'', entry_value = 55\<rparr>]) \<and>
   sorted (map date [\<lparr>date = ''2025-03-01'', entry_value = 40\<rparr>, \<lparr>date = ''2025-03-02'', entry_value = 55\<rparr>]) \<and>
   ''2025-03-01'' < ''2025-03-03'' \<and> ''2025-03-02'' < ''2025-03-03'' \<and>
   satisfactionHistory (updateSatisfaction ''2025-03-03'' 120
      (initialStats\<lparr>satisfactionHistory :=
         [\<lparr>date = ''2025-03-01'', entry_value = 40\<rparr>, \<lparr>date = ''2025-03-02'', entry_value = 55\<rparr>]\<rparr>))
     = [\<lparr>date = ''2025-03-01'', entry_value = 40\<rparr>, \<lparr>date = ''2025-03-02'', entry_value = 55\<rparr>,
        \<lparr>date = ''2025-03-03'', entry_value = 100\<rparr>] \<and>
   satisfactionHistory (updateSatisfaction ''2025-03-01'' (- 4)
      (initialStats\<lparr>satisfactionHistory :=
         [\<lparr>date = ''2025-03-01'', entry_value = 40\<rparr>, \<lparr>date = ''2025-03-02'', entry_value = 55\<rparr>]\<rparr>))
     = [\<lparr>date = ''2025-03-01'', entry_value = 0\<rparr>, \<lparr>date = ''2025-03-02'', entry_value = 55\<rparr>]"
  using
    updateSatisfaction_history[of "initialStats\<lparr>satisfactionHistory :=
         [\<lparr>date = ''2025-03-01'', entry_value = 40\<rparr>, \<lparr>date = ''2025-03-02'', entry_value = 55\<rparr>]\<rparr>"
       "''2025-03-03''" 120]
    updateSatisfaction_history[of "initialStats\<lparr>satisfactionHistory :=
         [\<lparr>date = ''2025-03-01'', entry_value = 40\<rparr>, \<lparr>date = ''2025-03-02'', entry_value = 55\<rparr>]\<rparr>"
       "''2025-03-01''" "- 4"]
  by (simp add: initialStats_def)

text \<open>
  Claim C7 as stated fails on its last part: nothing in \<open>updateSatisfaction\<close> orders the
  history, a new entry is appended at the end. A history holding an entry dated after
  today meets the claim's conditions and comes out unordered.
\<close>

theorem updateSatisfaction_order_counterexample:
  "length [\<lparr>date = ''2025-03-02'', entry_value = 50\<rparr>] \<le> 30 \<and>
   distinct (map date [\<lparr>date = ''2025-03-02'', entry_value = 50\<rparr>]) \<and>
   sorted (map date [\<lparr>date = ''2025-03-02'', entry_value = 50\<rparr>]) \<and>
   satisfactionHistory (updateSatisfaction ''2025-03-01'' 70
       (initialStats\<lparr>satisfactionHistory := [\<lparr>date = ''2025-03-02'', entry_value = 50\<rparr>]\<rparr>))
     = [\<lparr>date = ''2025-03-02'', entry_value = 50\<rparr>, \<lparr>date = ''2025-03-01'', entry_value = 70\<rparr>] \<and>
   \<not> sorted (map date (satisfactionHistory (updateSatisfaction ''2025-03-01'' 70
       (initialStats\<lparr>satisfactionHistory := [\<lparr>date = ''2025-03-02'', entry_value = 50\<rparr>]\<rparr>))))"
  by (simp add: updateSatisfaction_def initialStats_def)

section \<open>Claims on the daily reward\<close>

lemma activeCooldown_None_iff:
  "activeCooldown now l = None \<longleftrightarrow>
     (l = None \<or> l = Some 0 \<or> (\<exists>t. l = Some t \<and> twentyFourHours \<le> now - t))"
  by (cases l) auto

lemma claim_rejected:
  assumes "lastDailyRewardClaim s = Some t" and "t \<noteq> 0" and "now - t < twentyFourHours"
  shows "handleClaimDailyReward objs now s =
           Some (Cooldown ((twentyFourHours - (now - t)) div 3600000)
                          (((twentyFourHours - (now - t)) mod 3600000) div 60000), s)"
  using assms by (simp add: handleClaimDailyReward_def)

lemma claim_granted:
  assumes "0 < xpToNextLevel s" and "activeCooldown now (lastDailyRewardClaim s) = None"
  shows "\<exists>s1. addXp objs 25 s = Some s1 \<and> 0 < xpToNextLevel s1 \<and>
           handleClaimDailyReward objs now s =
             Some (DailyRewardClaimed 25 15,
                   s1\<lparr>gold := gold s + 15, lastDailyRewardClaim := Some now\<rparr>)"
proof -
  from addXp_total[OF assms(1), of objs 25] obtain s1 where
    s1: "addXp objs 25 s = Some s1" "xpToNextLevel s \<le> xpToNextLevel s1" "gold s1 = gold s"
    by blast
  have "0 < xpToNextLevel s1" using assms(1) s1(2) by simp
  then show ?thesis using s1 assms(2) by (simp add: handleClaimDailyReward_def addGold_def)
qed

text \<open>
  Claim C4, amended. \<open>handleClaimDailyReward\<close> succeeds if and only if
  \<open>lastDailyRewardClaim\<close> is null or 0, or \<open>now - lastDailyRewardClaim \<ge> 24h\<close>. On success
  it grants 25 XP through \<open>addXp\<close> and 15 gold and sets \<open>lastDailyRewardClaim = now\<close>;
  then, for \<open>now \<noteq> 0\<close>, an attempt 23h59m later is refused with 0h 1m left and the ledger
  unchanged, and an attempt 24h later succeeds. An attempt with a non-zero
  \<open>lastDailyRewardClaim\<close> and less than 24h elapsed leaves the ledger unchanged and reports
  the hours and minutes of \<open>24h - elapsed\<close>.
\<close>

theorem handleClaimDailyReward_cooldown:
  assumes pos: "0 < xpToNextLevel s"
  shows "((\<exists>s'. handleClaimDailyReward objs now s = Some (DailyRewardClaimed 25 15, s')) \<longleftrightarrow>
            (lastDailyRewardClaim s = None \<or> lastDailyRewardClaim s = Some 0 \<or>
             (\<exists>t. lastDailyRewardClaim s = Some t \<and> twentyFourHours \<le> now - t))) \<and>
         ((lastDailyRewardClaim s = None \<or> lastDailyRewardClaim s = Some 0 \<or>
             (\<exists>t. lastDailyRewardClaim s = Some t \<and> twentyFourHours \<le> now - t)) \<longrightarrow>
            (\<exists>s1. addXp objs 25 s = Some s1 \<and>
               handleClaimDailyReward objs now s =
                 Some (DailyRewardClaimed 25 15,
                       s1\<lparr>gold := gold s + 15, lastDailyRewardClaim := Some now\<rparr>) \<and>
               (now \<noteq> 0 \<longrightarrow>
                  handleClaimDailyReward objs (now + (23 * 60 + 59) * 60 * 1000)
                      (s1\<lparr>gold := gold s + 15, lastDailyRewardClaim := Some now\<rparr>) =
                    Some (Cooldown 0 1, s1\<lparr>gold := gold s + 15, lastDailyRewardClaim := Some now\<rparr>) \<and>
                  (\<exists>s2. handleClaimDailyReward objs (now + twentyFourHours)
                      (s1\<lparr>gold := gold s + 15, lastDailyRewardClaim := Some now\<rparr>) =
                    Some (DailyRewardClaimed 25 15, s2))))) \<and>
         (\<forall>t. lastDailyRewardClaim s = Some t \<and> t \<noteq> 0 \<and> now - t < twentyFourHours \<longrightarrow>
            handleClaimDailyReward objs now s =
              Some (Cooldown ((twentyFourHours - (now - t)) div 3600000)
                             (((twentyFourHours - (now - t)) mod 3600000) div 60000), s))"
proof (intro conjI)
  let ?ok = "lastDailyRewardClaim s = None \<or> lastDailyRewardClaim s = Some 0 \<or>
             (\<exists>t. lastDailyRewardClaim s = Some t \<and> twentyFourHours \<le> now - t)"
  show "(\<exists>s'. handleClaimDailyReward objs now s = Some (DailyRewardClaimed 25 15, s')) \<longleftrightarrow> ?ok"
  proof
    assume "\<exists>s'. handleClaimDailyReward objs now s = Some (DailyRewardClaimed 25 15, s')"
    then have "activeCooldown now (lastDailyRewardClaim s) = None"
      by (auto simp: handleClaimDailyReward_def split: option.splits)
    then show ?ok by (simp add: activeCooldown_None_iff)
  next
    assume ?ok
    then have "activeCooldown now (lastDailyRewardClaim s) = None"
      by (simp add: activeCooldown_None_iff)
    from claim_granted[OF pos this] show
      "\<exists>s'. handleClaimDailyReward objs now s = Some (DailyRewardClaimed 25 15, s')" by blast
  qed
  show "?ok \<longrightarrow>
            (\<exists>s1. addXp objs 25 s = Some s1 \<and>
               handleClaimDailyReward objs now s =
                 Some (DailyRewardClaimed 25 15,
                       s1\<lparr>gold := gold s + 15, lastDailyRewardClaim := Some now\<rparr>) \<and>
               (now \<noteq> 0 \<longrightarrow>
                  handleClaimDailyReward objs (now + (23 * 60 + 59) * 60 * 1000)
                      (s1\<lparr>gold := gold s + 15, lastDailyRewardClaim := Some now\<rparr>) =
                    Some (Cooldown 0 1, s1\<lparr>gold := gold s + 15, lastDailyRewardClaim := Some now\<rparr>) \<and>
                  (\<exists>s2. handleClaimDailyReward objs (now + twentyFourHours)
                      (s1\<lparr>gold := gold s + 15, lastDailyRewardClaim := Some now\<rparr>) =
                    Some (DailyRewardClaimed 25 15, s2))))"
  proof
    assume ?ok
    then have "activeCooldown now (lastDailyRewardClaim s) = None"
      by (simp add: activeCooldown_None_iff)
    from claim_granted[OF pos this] obtain s1 where
      s1: "addXp objs 25 s = Some s1" "0 < xpToNextLevel s1"
          "handleClaimDailyReward objs now s =
             Some (DailyRewardClaimed 25 15,
                   s1\<lparr>gold := gold s + 15, lastDailyRewardClaim := Some now\<rparr>)"
      by blast
    let ?s1 = "s1\<lparr>gold := gold s + 15, lastDailyRewardClaim := Some now\<rparr>"
    have early: "handleClaimDailyReward objs (now + (23 * 60 + 59) * 60 * 1000) ?s1 =
                   Some (Cooldown 0 1, ?s1)" if "now \<noteq> 0"
      using claim_rejected[of ?s1 now "now + (23 * 60 + 59) * 60 * 1000" objs] that
      by (simp add: twentyFourHours_def)
    have late: "\<exists>s2. handleClaimDailyReward objs (now + twentyFourHours) ?s1 =
                   Some (DailyRewardClaimed 25 15, s2)"
    proof -
      have "0 < xpToNextLevel ?s1" using s1(2) by simp
      moreover have "activeCooldown (now + twentyFourHours) (lastDailyRewardClaim ?s1) = None"
        by simp
      ultimately show ?thesis using claim_granted[of ?s1 "now + twentyFourHours" objs] by blast
    qed
    show "\<exists>s1. addXp objs 25 s = Some s1 \<and>
               handleClaimDailyReward objs now s =
                 Some (DailyRewardClaimed 25 15,
                       s1\<lparr>gold := gold s + 15, lastDailyRewardClaim := Some now\<rparr>) \<and>
               (now \<noteq> 0 \<longrightarrow>
                  handleClaimDailyReward objs (now + (23 * 60 + 59) * 60 * 1000)
                      (s1\<lparr>gold := gold s + 15, lastDailyRewardClaim := Some now\<rparr>) =
                    Some (Cooldown 0 1, s1\<lparr>gold := gold s + 15, lastDailyRewardClaim := Some now\<rparr>) \<and>
                  (\<exists>s2. handleClaimDailyReward objs (now + twentyFourHours)
                      (s1\<lparr>gold := gold s + 15, lastDailyRewardClaim := Some now\<rparr>) =
                    Some (DailyRewardClaimed 25 15, s2)))"
      using s1(1,3) early late by blast
  qed
  show "\<forall>t. lastDailyRewardClaim s = Some t \<and> t \<noteq> 0 \<and> now - t < twentyFourHours \<longrightarrow>
            handleClaimDailyReward objs now s =
              Some (Cooldown ((twentyFourHours - (now - t)) div 3600000)
                             (((twentyFourHours - (now - t)) mod 3600000) div 60000), s)"
    using claim_rejected by blast
qed

theorem handleClaimDailyReward_cooldown_witness:
  "0 < xpToNextLevel initialStats \<and> lastDailyRewardClaim initialStats = None \<and>
   (5000000 :: int) \<noteq> 0 \<and>
   handleClaimDailyReward [] 5000000 initialStats =
     Some (DailyRewardClaimed 25 15,
           initialStats\<lparr>xp := 25, gold := 15, lastDailyRewardClaim := Some 5000000\<rparr>) \<and>
   handleClaimDailyReward [] (5000000 + (23 * 60 + 59) * 60 * 1000)
       (initialStats\<lparr>xp := 25, gold := 15, lastDailyRewardClaim := Some 5000000\<rparr>) =
     Some (Cooldown 0 1, initialStats\<lparr>xp := 25, gold := 15, lastDailyRewardClaim := Some 5000000\<rparr>) \<and>
   (\<exists>s2. handleClaimDailyReward [] (5000000 + twentyFourHours)
       (initialStats\<lparr>xp := 25, gold := 15, lastDailyRewardClaim := Some 5000000\<rparr>) =
     Some (DailyRewardClaimed 25 15, s2)) \<and>
   lastDailyRewardClaim (initialStats\<lparr>lastDailyRewardClaim := Some 1000\<rparr>) = Some 1000 \<and>
   (1000 :: int) \<noteq> 0 \<and> 3601000 - 1000 < twentyFourHours \<and>
   handleClaimDailyReward [] 3601000 (initialStats\<lparr>lastDailyRewardClaim := Some 1000\<rparr>) =
     Some (Cooldown 23 0, initialStats\<lparr>lastDailyRewardClaim := Some 1000\<rparr>)"
  using handleClaimDailyReward_cooldown[of initialStats "[]" 5000000]
    handleClaimDailyReward_cooldown[of "initialStats\<lparr>lastDailyRewardClaim := Some 1000\<rparr>" "[]" 3601000]
  by (simp add: initialStats_def addXp_no_levelup twentyFourHours_def)

text \<open>
  Claim C4 as stated fails where \<open>lastDailyRewardClaim\<close> is the timestamp 0: the guard tests
  \<open>lastClaim &&\<close>, 0 is falsy, and a claim one second later is granted.
\<close>

theorem handleClaimDailyReward_zero_counterexample:
  "handleClaimDailyReward [] 1000 (initialStats\<lparr>lastDailyRewardClaim := Some 0\<rparr>) =
     Some (DailyRewardClaimed 25 15,
           initialStats\<lparr>xp := 25, gold := 15, lastDailyRewardClaim := Some 1000\<rparr>) \<and>
   lastDailyRewardClaim (initialStats\<lparr>lastDailyRewardClaim := Some 0\<rparr>) \<noteq> None \<and>
   1000 - 0 < twentyFourHours"
  by (simp add: handleClaimDailyReward_def addXp_no_levelup addGold_def initialStats_def
      twentyFourHours_def)

section \<open>Claims on objectives and subtasks\<close>

text \<open>Looking a document up again after a write to it.\<close>

lemma find_updateObjective:
  "find (\<lambda>obj. obj_id obj = oid) objs = Some ob \<Longrightarrow> \<forall>x. obj_id (f x) = obj_id x \<Longrightarrow>
   find (\<lambda>obj. obj_id obj = oid) (updateObjective oid f objs) = Some (f ob)"
  by (induction objs) (auto simp: updateObjective_def)

lemma find_current_map:
  assumes "\<forall>x. isCurrent (f x) = isCurrent x"
  shows "find isCurrent (map (\<lambda>obj. if obj_id obj = k then f obj else obj) objs) =
         map_option (\<lambda>obj. if obj_id obj = k then f obj else obj) (find isCurrent objs)"
proof (induction objs)
  case Nil
  show ?case by simp
next
  case (Cons a objs)
  show ?case
  proof (cases "isCurrent a")
    case True
    then have "isCurrent (if obj_id a = k then f a else a)" using assms by simp
    then show ?thesis using True by simp
  next
    case False
    then have "\<not> isCurrent (if obj_id a = k then f a else a)" using assms by simp
    then show ?thesis using False Cons by simp
  qed
qed

lemma find_current_updateObjective:
  "find isCurrent objs = Some cur \<Longrightarrow> \<forall>x. isCurrent (f x) = isCurrent x \<Longrightarrow>
   find isCurrent (updateObjective (obj_id cur) f objs) = Some (f cur)"
  unfolding updateObjective_def by (simp add: find_current_map)

lemma find_subtask_toggled:
  "find (\<lambda>s. sub_id s = sid) (filter (\<lambda>s. parent_id s = pid) subs) = Some sub \<Longrightarrow>
   find (\<lambda>s. sub_id s = sid)
     (filter (\<lambda>s. parent_id s = pid)
        (map (\<lambda>s. if parent_id s = pid \<and> sub_id s = sid then s\<lparr>sub_isCompleted := b\<rparr> else s) subs))
   = Some (sub\<lparr>sub_isCompleted := b\<rparr>)"
  by (induction subs) (auto split: if_splits)

text \<open>The ids of the example state are not numeric text.\<close>

lemma stringToNumber_example_ids:
  "stringToNumber ''o1'' = NaN"
  "stringToNumber ''s1'' = NaN"
  by code_simp+

lemma checkDailyStreak_keeps [simp]:
  "xp (checkDailyStreak objs now r s) = xp s"
  "level (checkDailyStreak objs now r s) = level s"
  "xpToNextLevel (checkDailyStreak objs now r s) = xpToNextLevel s"
  "gold (checkDailyStreak objs now r s) = gold s"
  by (simp_all add: checkDailyStreak_def Let_def)

text \<open>
  Claim C6. \<open>handleCompleteObjective\<close> on an objective with
  \<open>currentProgress < totalProgress\<close> reports that it is not complete and returns the state
  (objectives, subtasks, ledger) unchanged. With \<open>currentProgress \<ge> totalProgress\<close> it sets
  \<open>isCompleted = true\<close> and \<open>isCurrent = false\<close>, grants \<open>xpReward\<close> through the
  \<open>addXp\<close> updater and \<open>2 * xpReward\<close> gold, and deletes every subtask of the objective,
  and no other subtask.
\<close>

theorem handleCompleteObjective_gate:
  assumes rdy: "ready st"
    and found: "find (\<lambda>obj. obj_id obj = oid) (objectives st) = Some ob"
  shows "(currentProgress ob < totalProgress ob \<longrightarrow>
            handleCompleteObjective oid st = Some (NotYetCompleted, st)) \<and>
         (totalProgress ob \<le> currentProgress ob \<and> 0 < xpToNextLevel (playerStats st) \<longrightarrow>
            (\<exists>st' s1 reached.
               handleCompleteObjective oid st =
                 Some (ObjectiveCompleted (obj_xpReward ob) (obj_xpReward ob * 2), st') \<and>
               find (\<lambda>obj. obj_id obj = oid) (objectives st') =
                 Some (ob\<lparr>obj_isCompleted := True, isCurrent := False\<rparr>) \<and>
               addXp_update (obj_xpReward ob) (playerStats st) = Some (s1, reached) \<and>
               xp (playerStats st') = xp s1 \<and> level (playerStats st') = level s1 \<and>
               xpToNextLevel (playerStats st') = xpToNextLevel s1 \<and>
               (xp (playerStats st) + obj_xpReward ob < xpToNextLevel (playerStats st) \<longrightarrow>
                  xp s1 = xp (playerStats st) + obj_xpReward ob) \<and>
               gold (playerStats st') = gold (playerStats st) + 2 * obj_xpReward ob \<and>
               filter (\<lambda>s. parent_id s = oid) (subtasks st') = [] \<and>
               filter (\<lambda>s. parent_id s \<noteq> oid) (subtasks st') =
                 filter (\<lambda>s. parent_id s \<noteq> oid) (subtasks st)))"
proof (intro conjI impI)
  assume "currentProgress ob < totalProgress ob"
  then show "handleCompleteObjective oid st = Some (NotYetCompleted, st)"
    using rdy found by (simp add: handleCompleteObjective_def)
next
  assume a: "totalProgress ob \<le> currentProgress ob \<and> 0 < xpToNextLevel (playerStats st)"
  from addXp_update_total[of "playerStats st" "obj_xpReward ob"] a obtain s1 reached where
    s1: "addXp_update (obj_xpReward ob) (playerStats st) = Some (s1, reached)"
        "gold s1 = gold (playerStats st)"
    by blast
  let ?stats = "checkAchievements (objectives st) ''objectiveCompleted'' (Str (obj_id ob))
                  (addGold (obj_xpReward ob * 2) (levelUpScans (objectives st) reached s1))"
  let ?st' = "st\<lparr>objectives := updateObjective oid
                     (\<lambda>obj. obj\<lparr>obj_isCompleted := True, isCurrent := False\<rparr>) (objectives st),
                 subtasks := filter (\<lambda>s. parent_id s \<noteq> oid) (subtasks st),
                 playerStats := ?stats\<rparr>"
  have run: "handleCompleteObjective oid st =
               Some (ObjectiveCompleted (obj_xpReward ob) (obj_xpReward ob * 2), ?st')"
    using rdy found a s1(1) by (simp add: handleCompleteObjective_def addXp_def)
  have obj: "find (\<lambda>obj. obj_id obj = oid) (objectives ?st') =
               Some (ob\<lparr>obj_isCompleted := True, isCurrent := False\<rparr>)"
    using find_updateObjective[OF found, of "\<lambda>obj. obj\<lparr>obj_isCompleted := True, isCurrent := False\<rparr>"]
    by simp
  have nolvl: "xp s1 = xp (playerStats st) + obj_xpReward ob"
    if "xp (playerStats st) + obj_xpReward ob < xpToNextLevel (playerStats st)"
    using s1(1) addXp_update_no_levelup[OF that] by auto
  have stats: "xp ?stats = xp s1" "level ?stats = level s1"
    "xpToNextLevel ?stats = xpToNextLevel s1"
    "gold ?stats = gold (playerStats st) + 2 * obj_xpReward ob"
    using s1(2) by (simp_all add: addGold_def)
  have subs: "filter (\<lambda>s. parent_id s = oid) (subtasks ?st') = []"
    "filter (\<lambda>s. parent_id s \<noteq> oid) (subtasks ?st') = filter (\<lambda>s. parent_id s \<noteq> oid) (subtasks st)"
    by (simp_all add: filter_empty_conv)
  show "\<exists>st' s1 reached.
               handleCompleteObjective oid st =
                 Some (ObjectiveCompleted (obj_xpReward ob) (obj_xpReward ob * 2), st') \<and>
               find (\<lambda>obj. obj_id obj = oid) (objectives st') =
                 Some (ob\<lparr>obj_isCompleted := True, isCurrent := False\<rparr>) \<and>
               addXp_update (obj_xpReward ob) (playerStats st) = Some (s1, reached) \<and>
               xp (playerStats st') = xp s1 \<and> level (playerStats st') = level s1 \<and>
               xpToNextLevel (playerStats st') = xpToNextLevel s1 \<and>
               (xp (playerStats st) + obj_xpReward ob < xpToNextLevel (playerStats st) \<longrightarrow>
                  xp s1 = xp (playerStats st) + obj_xpReward ob) \<and>
               gold (playerStats st') = gold (playerStats st) + 2 * obj_xpReward ob \<and>
               filter (\<lambda>s. parent_id s = oid) (subtasks st') = [] \<and>
               filter (\<lambda>s. parent_id s \<noteq> oid) (subtasks st') =
                 filter (\<lambda>s. parent_id s \<noteq> oid) (subtasks st)"
    apply (rule exI[of _ ?st'], rule exI[of _ s1], rule exI[of _ reached])
    using run obj s1(1) stats subs nolvl by simp
qed

theorem handleCompleteObjective_gate_witness:
  "ready exampleState \<and>
   find (\<lambda>obj. obj_id obj = ''o1'') (objectives exampleState) = Some quest \<and>
   currentProgress quest < totalProgress quest \<and>
   handleCompleteObjective ''o1'' exampleState = Some (NotYetCompleted, exampleState) \<and>
   find (\<lambda>obj. obj_id obj = ''o1'')
     (objectives (exampleState\<lparr>objectives := [quest\<lparr>currentProgress := 100\<rparr>]\<rparr>))
     = Some (quest\<lparr>currentProgress := 100\<rparr>) \<and>
   totalProgress (quest\<lparr>currentProgress := 100\<rparr>) \<le> currentProgress (quest\<lparr>currentProgress := 100\<rparr>) \<and>
   0 < xpToNextLevel (playerStats exampleState) \<and>
   handleCompleteObjective ''o1'' (exampleState\<lparr>objectives := [quest\<lparr>currentProgress := 100\<rparr>]\<rparr>)
     = Some (ObjectiveCompleted 50 100,
             exampleState\<lparr>objectives :=
                 [quest\<lparr>currentProgress := 100, obj_isCompleted := True, isCurrent := False\<rparr>],
               subtasks := [], playerStats := initialStats\<lparr>xp := 50, gold := 100\<rparr>\<rparr>)"
  using handleCompleteObjective_gate[of exampleState "''o1''" quest]
    handleCompleteObjective_gate[of "exampleState\<lparr>objectives := [quest\<lparr>currentProgress := 100\<rparr>]\<rparr>"
      "''o1''" "quest\<lparr>currentProgress := 100\<rparr>"]
  by (simp add: handleCompleteObjective_def exampleState_def quest_def task_def initialStats_def
      addXp_no_levelup addGold_def checkAchievements_def bumpCounters_def isUnlocked_def
      allAchievements_def updateObjective_def stringToNumber_example_ids)

text \<open>The two branches of \<open>handleToggleSubtaskComplete\<close>, and what each leaves behind.\<close>

lemma toggle_complete:
  assumes "ready st" and "currentObjective st = Some cur"
    and "find (\<lambda>s. sub_id s = sid) (filter (\<lambda>s. parent_id s = obj_id cur) (subtasks st)) = Some sub"
    and "addXp (objectives st) (sub_xpReward sub) (playerStats st) = Some s1"
  shows "handleToggleSubtaskComplete now sid False st =
    Some (SubtaskCompleted (progressContribution sub) (sub_xpReward sub) (goldReward sub),
          st\<lparr>objectives := updateObjective (obj_id cur)
                 (\<lambda>obj. obj\<lparr>currentProgress :=
                            min (currentProgress cur + progressContribution sub) (totalProgress cur)\<rparr>)
                 (objectives st),
             subtasks := map (\<lambda>s. if parent_id s = obj_id cur \<and> sub_id s = sid
                                    then s\<lparr>sub_isCompleted := True\<rparr> else s) (subtasks st),
             playerStats := checkDailyStreak (objectives st) now (playerStats st)
                 (checkAchievements (objectives st) ''subtaskCompleted'' (Str (sub_id sub))
                    (addGold (goldReward sub) s1))\<rparr>)"
  using assms by (simp add: handleToggleSubtaskComplete_def Let_def)

lemma toggle_undo:
  assumes "ready st" and "currentObjective st = Some cur"
    and "find (\<lambda>s. sub_id s = sid) (filter (\<lambda>s. parent_id s = obj_id cur) (subtasks st)) = Some sub"
  shows "handleToggleSubtaskComplete now sid True st =
    Some (SubtaskIncomplete (progressContribution sub) (sub_xpReward sub) (goldReward sub),
          st\<lparr>objectives := updateObjective (obj_id cur)
                 (\<lambda>obj. obj\<lparr>currentProgress :=
                            max (currentProgress cur - progressContribution sub) 0\<rparr>)
                 (objectives st),
             subtasks := map (\<lambda>s. if parent_id s = obj_id cur \<and> sub_id s = sid
                                    then s\<lparr>sub_isCompleted := False\<rparr> else s) (subtasks st),
             playerStats := deductGold (goldReward sub)
                              (deductXp (sub_xpReward sub) (playerStats st))\<rparr>)"
  using assms by (simp add: handleToggleSubtaskComplete_def Let_def)


lemma toggle_complete_props:
  assumes rdy: "ready st" and cur: "currentObjective st = Some cur"
    and sub: "find (\<lambda>s. sub_id s = sid)
                (filter (\<lambda>s. parent_id s = obj_id cur) (subtasks st)) = Some sub"
    and pos: "0 < xpToNextLevel (playerStats st)"
  shows "\<exists>r st1. handleToggleSubtaskComplete now sid False st = Some (r, st1) \<and> ready st1 \<and>
           currentObjective st1 =
             Some (cur\<lparr>currentProgress :=
                      min (currentProgress cur + progressContribution sub) (totalProgress cur)\<rparr>) \<and>
           find (\<lambda>s. sub_id s = sid)
             (filter (\<lambda>s. parent_id s = obj_id cur) (subtasks st1)) =
             Some (sub\<lparr>sub_isCompleted := True\<rparr>) \<and>
           gold (playerStats st1) = gold (playerStats st) + goldReward sub \<and>
           xpToNextLevel (playerStats st) \<le> xpToNextLevel (playerStats st1) \<and>
           (xp (playerStats st) + sub_xpReward sub < xpToNextLevel (playerStats st) \<longrightarrow>
              xp (playerStats st1) = xp (playerStats st) + sub_xpReward sub \<and>
              xpToNextLevel (playerStats st1) = xpToNextLevel (playerStats st))"
proof -
  from addXp_total[OF pos, of "objectives st" "sub_xpReward sub"] obtain s1 where
    s1: "addXp (objectives st) (sub_xpReward sub) (playerStats st) = Some s1"
        "xpToNextLevel (playerStats st) \<le> xpToNextLevel s1" "gold s1 = gold (playerStats st)"
    by blast
  have nolvl: "s1 = (playerStats st)\<lparr>xp := xp (playerStats st) + sub_xpReward sub\<rparr>"
    if "xp (playerStats st) + sub_xpReward sub < xpToNextLevel (playerStats st)"
    using addXp_no_levelup[OF that, of "objectives st"] s1(1) by simp
  note run = toggle_complete[OF rdy cur sub s1(1), of now]
  have c: "find isCurrent (updateObjective (obj_id cur)
                 (\<lambda>obj. obj\<lparr>currentProgress :=
                            min (currentProgress cur + progressContribution sub) (totalProgress cur)\<rparr>)
                 (objectives st)) =
           Some (cur\<lparr>currentProgress :=
                      min (currentProgress cur + progressContribution sub) (totalProgress cur)\<rparr>)"
    using cur by (intro find_current_updateObjective) (simp_all add: currentObjective_def)
  note f = find_subtask_toggled[OF sub, of True]
  show ?thesis
    apply (intro exI conjI)
          apply (rule run)
    using rdy c f s1 nolvl by (simp_all add: currentObjective_def addGold_def)
qed

lemma toggle_undo_props:
  assumes rdy: "ready st" and cur: "currentObjective st = Some cur"
    and sub: "find (\<lambda>s. sub_id s = sid)
                (filter (\<lambda>s. parent_id s = obj_id cur) (subtasks st)) = Some sub"
  shows "\<exists>r st2. handleToggleSubtaskComplete now sid True st = Some (r, st2) \<and> ready st2 \<and>
           currentObjective st2 =
             Some (cur\<lparr>currentProgress :=
                      max (currentProgress cur - progressContribution sub) 0\<rparr>) \<and>
           find (\<lambda>s. sub_id s = sid)
             (filter (\<lambda>s. parent_id s = obj_id cur) (subtasks st2)) =
             Some (sub\<lparr>sub_isCompleted := False\<rparr>) \<and>
           gold (playerStats st2) = max 0 (gold (playerStats st) - goldReward sub) \<and>
           xp (playerStats st2) = max 0 (xp (playerStats st) - sub_xpReward sub) \<and>
           xpToNextLevel (playerStats st2) = xpToNextLevel (playerStats st)"
proof -
  note run = toggle_undo[OF rdy cur sub, of now]
  have c: "find isCurrent (updateObjective (obj_id cur)
                 (\<lambda>obj. obj\<lparr>currentProgress :=
                            max (currentProgress cur - progressContribution sub) 0\<rparr>)
                 (objectives st)) =
           Some (cur\<lparr>currentProgress :=
                      max (currentProgress cur - progressContribution sub) 0\<rparr>)"
    using cur by (intro find_current_updateObjective) (simp_all add: currentObjective_def)
  note f = find_subtask_toggled[OF sub, of False]
  show ?thesis
    apply (intro exI conjI)
          apply (rule run)
    using rdy c f by (simp_all add: currentObjective_def deductGold_def deductXp_def)
qed


text \<open>
  Claim C2, amended. For every subtask of the current objective and every starting state of
  the data model (\<open>currentProgress\<close>, \<open>xp\<close> and \<open>gold\<close> not negative, \<open>xpToNextLevel\<close>
  positive), toggling the subtask complete, incomplete and complete again, at any times,
  gives the objective the \<open>currentProgress\<close> and the ledger the \<open>gold\<close> that toggling it
  complete once gives; and it gives the same \<open>xp\<close> when completing the subtask causes no
  level-up (\<open>xp + xpReward < xpToNextLevel\<close>).
\<close>

theorem toggle_round_trip:
  assumes rdy: "ready st" and cur: "currentObjective st = Some cur"
    and sub: "find (\<lambda>s. sub_id s = sid)
                (filter (\<lambda>s. parent_id s = obj_id cur) (subtasks st)) = Some sub"
    and prog: "0 \<le> currentProgress cur"
    and xp0: "0 \<le> xp (playerStats st)" and gold0: "0 \<le> gold (playerStats st)"
    and pos: "0 < xpToNextLevel (playerStats st)"
  shows "\<exists>r1 st1 r2 st2 r3 st3 c1 c3.
           handleToggleSubtaskComplete now1 sid False st = Some (r1, st1) \<and>
           handleToggleSubtaskComplete now2 sid True st1 = Some (r2, st2) \<and>
           handleToggleSubtaskComplete now3 sid False st2 = Some (r3, st3) \<and>
           currentObjective st1 = Some c1 \<and> currentObjective st3 = Some c3 \<and>
           currentProgress c3 = currentProgress c1 \<and>
           gold (playerStats st3) = gold (playerStats st1) \<and>
           (xp (playerStats st) + sub_xpReward sub < xpToNextLevel (playerStats st) \<longrightarrow>
              xp (playerStats st3) = xp (playerStats st1))"
proof -
  let ?pc = "progressContribution sub" and ?r = "sub_xpReward sub" and ?g = "goldReward sub"
  let ?c1 = "cur\<lparr>currentProgress := min (currentProgress cur + ?pc) (totalProgress cur)\<rparr>"
  let ?s1 = "sub\<lparr>sub_isCompleted := True\<rparr>"
  from toggle_complete_props[OF rdy cur sub pos, of now1] obtain r1 st1 where
    t1: "handleToggleSubtaskComplete now1 sid False st = Some (r1, st1)" "ready st1"
        "currentObjective st1 = Some ?c1"
        "find (\<lambda>s. sub_id s = sid) (filter (\<lambda>s. parent_id s = obj_id cur) (subtasks st1)) = Some ?s1"
        "gold (playerStats st1) = gold (playerStats st) + ?g"
        "xpToNextLevel (playerStats st) \<le> xpToNextLevel (playerStats st1)"
        "xp (playerStats st) + ?r < xpToNextLevel (playerStats st) \<longrightarrow>
           xp (playerStats st1) = xp (playerStats st) + ?r \<and>
           xpToNextLevel (playerStats st1) = xpToNextLevel (playerStats st)"
    by blast
  let ?c2 = "?c1\<lparr>currentProgress := max (currentProgress ?c1 - progressContribution ?s1) 0\<rparr>"
  let ?s2 = "?s1\<lparr>sub_isCompleted := False\<rparr>"
  have sub1: "find (\<lambda>s. sub_id s = sid)
                (filter (\<lambda>s. parent_id s = obj_id ?c1) (subtasks st1)) = Some ?s1"
    using t1(4) by simp
  from toggle_undo_props[OF t1(2) t1(3) sub1, of now2] obtain r2 st2 where
    t2: "handleToggleSubtaskComplete now2 sid True st1 = Some (r2, st2)" "ready st2"
        "currentObjective st2 = Some ?c2"
        "find (\<lambda>s. sub_id s = sid) (filter (\<lambda>s. parent_id s = obj_id ?c1) (subtasks st2)) = Some ?s2"
        "gold (playerStats st2) = max 0 (gold (playerStats st1) - goldReward ?s1)"
        "xp (playerStats st2) = max 0 (xp (playerStats st1) - sub_xpReward ?s1)"
        "xpToNextLevel (playerStats st2) = xpToNextLevel (playerStats st1)"
    by blast
  let ?c3 = "?c2\<lparr>currentProgress :=
               min (currentProgress ?c2 + progressContribution ?s2) (totalProgress ?c2)\<rparr>"
  have sub2: "find (\<lambda>s. sub_id s = sid)
                (filter (\<lambda>s. parent_id s = obj_id ?c2) (subtasks st2)) = Some ?s2"
    using t2(4) by simp
  have pos2: "0 < xpToNextLevel (playerStats st2)" using pos t1(6) t2(7) by simp
  from toggle_complete_props[OF t2(2) t2(3) sub2 pos2, of now3] obtain r3 st3 where
    t3: "handleToggleSubtaskComplete now3 sid False st2 = Some (r3, st3)"
        "currentObjective st3 = Some ?c3"
        "gold (playerStats st3) = gold (playerStats st2) + goldReward ?s2"
        "xp (playerStats st2) + sub_xpReward ?s2 < xpToNextLevel (playerStats st2) \<longrightarrow>
           xp (playerStats st3) = xp (playerStats st2) + sub_xpReward ?s2 \<and>
           xpToNextLevel (playerStats st3) = xpToNextLevel (playerStats st2)"
    by blast
  have progress: "currentProgress ?c3 = currentProgress ?c1"
    using prog by (simp add: min_def max_def)
  have gold: "gold (playerStats st3) = gold (playerStats st1)"
    using t1(5) t2(5) t3(3) gold0 by simp
  have xp: "xp (playerStats st3) = xp (playerStats st1)"
    if "xp (playerStats st) + ?r < xpToNextLevel (playerStats st)"
  proof -
    from t1(7) that have a: "xp (playerStats st1) = xp (playerStats st) + ?r"
      "xpToNextLevel (playerStats st1) = xpToNextLevel (playerStats st)" by simp_all
    have b: "xp (playerStats st2) = xp (playerStats st)" using t2(6) a(1) xp0 by simp
    have "xp (playerStats st2) + sub_xpReward ?s2 < xpToNextLevel (playerStats st2)"
      using b t2(7) a(2) that by simp
    with t3(4) have "xp (playerStats st3) = xp (playerStats st2) + sub_xpReward ?s2" by simp
    then show ?thesis using a(1) b by simp
  qed
  show ?thesis using t1(1,3) t2(1) t3(1,2) progress gold xp by blast
qed


text \<open>
  Claim C2 as stated, for every starting state, fails on \<open>xp\<close> when the first completion
  levels up: \<open>deductXp\<close> never takes a level back and stops at 0. From \<open>xp = 90\<close> of 100 and
  a reward of 20, one toggle leaves \<open>xp = 10\<close> at level 2, three toggles leave \<open>xp = 20\<close>.
\<close>

theorem toggle_round_trip_counterexample:
  "map_option (xp \<circ> playerStats \<circ> snd)
     (handleToggleSubtaskComplete 1740909600000 ''s1'' False
        (exampleState\<lparr>playerStats := initialStats\<lparr>xp := 90\<rparr>\<rparr>)) = Some 10 \<and>
   map_option (xp \<circ> playerStats \<circ> snd)
     (Option.bind
        (Option.bind
           (handleToggleSubtaskComplete 1740909600000 ''s1'' False
              (exampleState\<lparr>playerStats := initialStats\<lparr>xp := 90\<rparr>\<rparr>))
           (handleToggleSubtaskComplete 1740909600000 ''s1'' True \<circ> snd))
        (handleToggleSubtaskComplete 1740909600000 ''s1'' False \<circ> snd)) = Some 20"
  by (simp add: handleToggleSubtaskComplete_def currentObjective_def exampleState_def quest_def
      task_def initialStats_def addXp_def addXp_update_def levelUpLoop.simps Let_def
      deductXp_def deductGold_def addGold_def updateObjective_def)

theorem toggle_round_trip_witness:
  "ready exampleState \<and> currentObjective exampleState = Some quest \<and>
   find (\<lambda>s. sub_id s = ''s1'')
     (filter (\<lambda>s. parent_id s = obj_id quest) (subtasks exampleState)) = Some task \<and>
   0 \<le> currentProgress quest \<and> 0 \<le> xp (playerStats exampleState) \<and>
   0 \<le> gold (playerStats exampleState) \<and> 0 < xpToNextLevel (playerStats exampleState) \<and>
   xp (playerStats exampleState) + sub_xpReward task < xpToNextLevel (playerStats exampleState) \<and>
   (\<exists>r1 st1 r2 st2 r3 st3 c1 c3.
      handleToggleSubtaskComplete 1740909600000 ''s1'' False exampleState = Some (r1, st1) \<and>
      handleToggleSubtaskComplete 1740909600000 ''s1'' True st1 = Some (r2, st2) \<and>
      handleToggleSubtaskComplete 1740996000000 ''s1'' False st2 = Some (r3, st3) \<and>
      currentObjective st1 = Some c1 \<and> currentObjective st3 = Some c3 \<and>
      currentProgress c3 = currentProgress c1 \<and>
      gold (playerStats st3) = gold (playerStats st1) \<and>
      xp (playerStats st3) = xp (playerStats st1))"
proof -
  have h: "ready exampleState" "currentObjective exampleState = Some quest"
    "find (\<lambda>s. sub_id s = ''s1'')
       (filter (\<lambda>s. parent_id s = obj_id quest) (subtasks exampleState)) = Some task"
    "0 \<le> currentProgress quest" "0 \<le> xp (playerStats exampleState)"
    "0 \<le> gold (playerStats exampleState)" "0 < xpToNextLevel (playerStats exampleState)"
    by (simp_all add: exampleState_def currentObjective_def quest_def task_def initialStats_def)
  have n: "xp (playerStats exampleState) + sub_xpReward task < xpToNextLevel (playerStats exampleState)"
    by (simp add: exampleState_def task_def initialStats_def)
  from toggle_round_trip[OF h, of 1740909600000 1740909600000 1740996000000] n
  show ?thesis using h by blast
qed

end
